theory Spec2Isabelle
  imports Main
begin

section \<open>Python values of the notebook\<close>

text \<open>
  The notebook \<^verbatim>\<open>example.ipynb\<close> traverses decoded JSON documents dynamically. A
  value is what \<^verbatim>\<open>json\<close> decoding produces: \<^verbatim>\<open>None\<close>, a bool, an int, a str, a
  list or a dict with string keys. Python ints are unbounded, hence \<open>int\<close>. JSON
  floats are not modelled: no field the notebook reads is one. A dict is an association
  list in insertion order, its keys distinct, read with \<open>map_of\<close> (which takes the first
  binding of a key). A str is a list of characters.
\<close>

datatype pyval =
    PNone
  | PBool bool
  | PInt int
  | PStr string
  | PList "pyval list"
  | PDict "(string \<times> pyval) list"

text \<open>
  The exceptions the notebook can meet. \<open>TransportError msg\<close> stands for whatever
  \<^verbatim>\<open>requests.get\<close> raises on a network failure, \<open>msg\<close> being its \<^verbatim>\<open>str()\<close>;
  \<open>JSONDecodeError\<close> is what \<^verbatim>\<open>Response.json()\<close> raises on a body that is not JSON.
\<close>

datatype py_error =
    NameError string
  | KeyError pyval
  | TypeError
  | IndexError
  | AttributeError string
  | ValueError string
  | JSONDecodeError
  | TransportError string

type_synonym 'a result = "py_error + 'a"

text \<open>An exception ends the computation; a value goes on to the next statement.\<close>

definition and_then :: "'a result \<Rightarrow> ('a \<Rightarrow> 'b result) \<Rightarrow> 'b result" where
  "and_then m f = (case m of Inl e \<Rightarrow> Inl e | Inr v \<Rightarrow> f v)"

text \<open>The global namespace of the kernel: the names bound so far.\<close>

type_synonym env = "string \<rightharpoonup> pyval"

definition lookup :: "env \<Rightarrow> string \<Rightarrow> pyval result" where
  "lookup env n = (case env n of None \<Rightarrow> Inl (NameError n) | Some v \<Rightarrow> Inr v)"

subsection \<open>Equality, subscription, iteration, membership\<close>

text \<open>
  \<^verbatim>\<open>a == b\<close>. A bool is an int (\<^verbatim>\<open>True == 1\<close>); lists are equal elementwise, dicts
  when they have the same keys with equal values; values of different kinds differ.
\<close>

fun py_eq :: "pyval \<Rightarrow> pyval \<Rightarrow> bool"
  and py_eq_list :: "pyval list \<Rightarrow> pyval list \<Rightarrow> bool"
  and py_eq_items :: "(string \<times> pyval) list \<Rightarrow> (string \<times> pyval) list \<Rightarrow> bool" where
  "py_eq PNone PNone = True"
| "py_eq (PBool a) (PBool b) = (a = b)"
| "py_eq (PBool a) (PInt j) = ((if a then 1 else 0) = j)"
| "py_eq (PInt i) (PBool b) = (i = (if b then 1 else 0))"
| "py_eq (PInt i) (PInt j) = (i = j)"
| "py_eq (PStr s) (PStr t) = (s = t)"
| "py_eq (PList xs) (PList ys) = py_eq_list xs ys"
| "py_eq (PDict a) (PDict b) = (length a = length b \<and> py_eq_items a b)"
| "py_eq _ _ = False"
| "py_eq_list [] [] = True"
| "py_eq_list (x # xs) (y # ys) = (py_eq x y \<and> py_eq_list xs ys)"
| "py_eq_list _ _ = False"
| "py_eq_items [] b = True"
| "py_eq_items ((k, v) # kvs) b =
     ((case map_of b k of None \<Rightarrow> False | Some w \<Rightarrow> py_eq v w) \<and> py_eq_items kvs b)"

text \<open>
  Python's index into a sequence of length \<open>n\<close>: a negative index counts from the end,
  an index out of range raises \<^verbatim>\<open>IndexError\<close>.
\<close>

definition seq_index :: "'a list \<Rightarrow> int \<Rightarrow> 'a result" where
  "seq_index xs i =
     (if 0 \<le> i \<and> i < int (length xs) then Inr (xs ! nat i)
      else if i < 0 \<and> - int (length xs) \<le> i then Inr (xs ! nat (int (length xs) + i))
      else Inl IndexError)"

text \<open>
  \<^verbatim>\<open>container[key]\<close>. A dict raises \<^verbatim>\<open>KeyError\<close> on a missing key and \<^verbatim>\<open>TypeError\<close>
  on an unhashable one (a list or a dict); its keys are strings, so no other key is
  found. A list or a str takes an int (or bool) index. Nothing else is subscriptable.
\<close>

fun subscript :: "pyval \<Rightarrow> pyval \<Rightarrow> pyval result" where
  "subscript (PDict kvs) (PStr k) =
     (case map_of kvs k of None \<Rightarrow> Inl (KeyError (PStr k)) | Some v \<Rightarrow> Inr v)"
| "subscript (PDict kvs) (PList ks) = Inl TypeError"
| "subscript (PDict kvs) (PDict ks) = Inl TypeError"
| "subscript (PDict kvs) k = Inl (KeyError k)"
| "subscript (PList xs) (PInt i) = seq_index xs i"
| "subscript (PList xs) (PBool b) = seq_index xs (if b then 1 else 0)"
| "subscript (PList xs) k = Inl TypeError"
| "subscript (PStr s) (PInt i) = map_sum id (\<lambda>c. PStr [c]) (seq_index s i)"
| "subscript (PStr s) (PBool b) = map_sum id (\<lambda>c. PStr [c]) (seq_index s (if b then 1 else 0))"
| "subscript (PStr s) k = Inl TypeError"
| "subscript c k = Inl TypeError"

text \<open>
  The elements a \<^verbatim>\<open>for\<close> loop or a comprehension visits: those of a list, the keys of
  a dict, the characters of a str; anything else is not iterable.
\<close>

fun iterate :: "pyval \<Rightarrow> pyval list result" where
  "iterate (PList xs) = Inr xs"
| "iterate (PDict kvs) = Inr (map (\<lambda>(k, v). PStr k) kvs)"
| "iterate (PStr s) = Inr (map (\<lambda>c. PStr [c]) s)"
| "iterate v = Inl TypeError"

fun substring :: "string \<Rightarrow> string \<Rightarrow> bool" where
  "substring t [] = (t = [])"
| "substring t (c # s) = (take (length t) (c # s) = t \<or> substring t s)"

text \<open>
  \<^verbatim>\<open>v in container\<close>. A list compares \<open>v\<close> with each element by \<^verbatim>\<open>==\<close>; a dict looks
  the key up (an unhashable \<open>v\<close> raises); a str wants a str and tests for a substring;
  anything else is not a container.
\<close>

fun contains :: "pyval \<Rightarrow> pyval \<Rightarrow> bool result" where
  "contains (PList xs) v = Inr (list_ex (\<lambda>e. py_eq e v) xs)"
| "contains (PDict kvs) (PStr k) = Inr (map_of kvs k \<noteq> None)"
| "contains (PDict kvs) (PList ks) = Inl TypeError"
| "contains (PDict kvs) (PDict ks) = Inl TypeError"
| "contains (PDict kvs) v = Inr False"
| "contains (PStr s) (PStr t) = Inr (substring t s)"
| "contains c v = Inl TypeError"

section \<open>Step 3: the helper functions\<close>

text \<open>
  \<^verbatim>\<open>requests.get\<close> and \<^verbatim>\<open>Response.json\<close> belong to the \<^verbatim>\<open>requests\<close> library; they are
  parameters here. A response carries its status code and its body. A GET either
  returns a response or raises a transport error (\<open>Inl\<close> its message); \<open>decode\<close> is the
  JSON decoder, \<open>None\<close> on a body that is not JSON.
\<close>

record response =
  status_code :: int
  body :: string

type_synonym http = "string \<Rightarrow> string + response"
type_synonym decoder = "string \<Rightarrow> pyval option"

text \<open>
  \<^verbatim>\<open>
  def get_data(accession, url):
      try:
          return requests.get(url)
      except Error as err:
          print("There was an error while retrieving the data: %s" % err)
  \<close>
  The result is the returned object (\<open>None\<close> for Python's \<^verbatim>\<open>None\<close>) or the exception
  that leaves the function, together with the lines printed. The \<^verbatim>\<open>except\<close> clause
  evaluates the global name \<^verbatim>\<open>Error\<close> once an exception has been raised. The first
  argument is what that name is bound to: \<open>None\<close> when it is unbound, otherwise the set
  of exceptions the class it names catches.
\<close>

definition get_data ::
  "(py_error \<Rightarrow> bool) option \<Rightarrow> http \<Rightarrow> string \<Rightarrow> string
     \<Rightarrow> response option result \<times> string list" where
  "get_data Error requests_get accession url =
     (case requests_get url of
        Inr r \<Rightarrow> (Inr (Some r), [])
      | Inl err \<Rightarrow>
          (case Error of
             None \<Rightarrow> (Inl (NameError ''Error''), [])
           | Some catches \<Rightarrow>
               if catches (TransportError err)
               then (Inr None, [''There was an error while retrieving the data: '' @ err])
               else (Inl (TransportError err), [])))"

text \<open>
  No cell of either notebook binds \<^verbatim>\<open>Error\<close> (Step 1 imports \<^verbatim>\<open>requests\<close> only), and
  Python has no builtin of that name.
\<close>

definition notebook_Error :: "(py_error \<Rightarrow> bool) option" where
  "notebook_Error = None"

text \<open>
  \<^verbatim>\<open>
  def parse_data(data):
      if data.status_code == 200:
          return data.json()
      else:
          raise ValueError('No data received')
  \<close>
  \<open>data\<close> is what \<open>get_data\<close> returned: a response or \<^verbatim>\<open>None\<close>, which has no
  attribute \<^verbatim>\<open>status_code\<close>.
\<close>

definition json :: "decoder \<Rightarrow> response \<Rightarrow> pyval result" where
  "json decode r = (case decode (body r) of None \<Rightarrow> Inl JSONDecodeError | Some v \<Rightarrow> Inr v)"

fun parse_data :: "decoder \<Rightarrow> response option \<Rightarrow> pyval result" where
  "parse_data decode None = Inl (AttributeError ''status_code'')"
| "parse_data decode (Some data) =
     (if status_code data = 200 then json decode data
      else Inl (ValueError ''No data received''))"

text \<open>
  The cell \<^verbatim>\<open>annotations_data = parse_data(get_data(ACCESSION, ANNOTATIONS_URL))\<close> of
  Step 4, and its two siblings of Steps 5 and 7: the value bound, or the exception.
\<close>

definition fetch ::
  "(py_error \<Rightarrow> bool) option \<Rightarrow> http \<Rightarrow> decoder \<Rightarrow> string \<Rightarrow> string \<Rightarrow> pyval result" where
  "fetch Error requests_get decode accession url =
     and_then (fst (get_data Error requests_get accession url)) (parse_data decode)"

section \<open>Steps 4, 6 and 7: the three filtering cells\<close>

text \<open>
  The expression \<^verbatim>\<open>doc[ACCESSION]["data"]\<close> at the head of each loop, with the
  iterator taken from it. \<open>doc\<close> and \<open>acc\<close> are the names of the two global variables.
\<close>

definition records_of :: "env \<Rightarrow> string \<Rightarrow> string \<Rightarrow> pyval list result" where
  "records_of env doc acc =
     and_then (lookup env doc) (\<lambda>d.
     and_then (lookup env acc) (\<lambda>a.
     and_then (subscript d a) (\<lambda>entry.
     and_then (subscript entry (PStr ''data'')) (\<lambda>recs.
     iterate recs))))"

subsection \<open>Step 4: predicted ligand binding residues\<close>

text \<open>\<^verbatim>\<open>[x["startIndex"] for x in xs]\<close>\<close>

fun start_indices :: "pyval list \<Rightarrow> pyval list result" where
  "start_indices [] = Inr []"
| "start_indices (x # xs) =
     and_then (subscript x (PStr ''startIndex'')) (\<lambda>v.
     and_then (start_indices xs) (\<lambda>vs.
     Inr (v # vs)))"

text \<open>
  \<^verbatim>\<open>
  for provider_data in annotations_data[ACCESSION]["data"]:
      if provider_data["accession"] in ["p2rank", "cansar"]:
          residues = [x["startIndex"] for x in provider_data["residues"]]
          all_predicted_ligand_binding_residues.extend(residues)
  \<close>
  The list literal is the parameter \<open>allow\<close>; the accumulator is the list the loop
  extends.
\<close>

fun provider_loop :: "pyval list \<Rightarrow> pyval list \<Rightarrow> pyval list \<Rightarrow> pyval list result" where
  "provider_loop allow [] acc = Inr acc"
| "provider_loop allow (provider_data # rest) acc =
     and_then (subscript provider_data (PStr ''accession'')) (\<lambda>a.
     and_then (contains (PList allow) a) (\<lambda>hit.
     if hit then
       and_then (subscript provider_data (PStr ''residues'')) (\<lambda>rs.
       and_then (iterate rs) (\<lambda>xs.
       and_then (start_indices xs) (\<lambda>residues.
       provider_loop allow rest (acc @ residues))))
     else provider_loop allow rest acc))"

definition predicted_residues :: "string list \<Rightarrow> env \<Rightarrow> pyval list result" where
  "predicted_residues allow env =
     and_then (records_of env ''annotations_data'' ''ACCESSION'') (\<lambda>recs.
     provider_loop (map PStr allow) recs [])"

text \<open>The value of the variable after the cell of Step 4 has run.\<close>

definition all_predicted_ligand_binding_residues :: "env \<Rightarrow> pyval list result" where
  "all_predicted_ligand_binding_residues env = predicted_residues [''p2rank'', ''cansar''] env"

subsection \<open>Step 6: interface residues with one partner\<close>

text \<open>
  \<^verbatim>\<open>[x["startIndex"] for x in xs if x["startIndex"] in candidates]\<close>. The name
  of the candidate list is looked up at each test, so an unbound name raises only when
  a residue is reached; \<open>cand\<close> is the outcome of that lookup.
\<close>

fun interacting :: "pyval result \<Rightarrow> pyval list \<Rightarrow> pyval list result" where
  "interacting cand [] = Inr []"
| "interacting cand (x # xs) =
     and_then (subscript x (PStr ''startIndex'')) (\<lambda>v.
     and_then cand (\<lambda>c.
     and_then (contains c v) (\<lambda>hit.
     and_then (interacting cand xs) (\<lambda>vs.
     Inr (if hit then v # vs else vs)))))"

text \<open>
  \<^verbatim>\<open>
  for item in interactions_data[ACCESSION]["data"]:
      if item["name"] == "Hirudin variant-1":
          interacting_residues = [x["startIndex"] for x in item["residues"]
                                  if x["startIndex"] in all_predicted_ligand_binding_residues]
          interface_residues_with_hirudin.extend(interacting_residues)
  \<close>
\<close>

fun item_loop :: "string \<Rightarrow> pyval result \<Rightarrow> pyval list \<Rightarrow> pyval list \<Rightarrow> pyval list result" where
  "item_loop partner cand [] acc = Inr acc"
| "item_loop partner cand (item # rest) acc =
     and_then (subscript item (PStr ''name'')) (\<lambda>n.
     if py_eq n (PStr partner) then
       and_then (subscript item (PStr ''residues'')) (\<lambda>rs.
       and_then (iterate rs) (\<lambda>xs.
       and_then (interacting cand xs) (\<lambda>interacting_residues.
       item_loop partner cand rest (acc @ interacting_residues))))
     else item_loop partner cand rest acc)"

text \<open>
  The cell, with the partner name and the names of the two variables it reads besides
  \<^verbatim>\<open>interactions_data\<close> as parameters: the accession and the candidate list.
\<close>

definition interface_residues :: "string \<Rightarrow> string \<Rightarrow> string \<Rightarrow> env \<Rightarrow> pyval list result" where
  "interface_residues partner acc cand env =
     and_then (records_of env ''interactions_data'' acc) (\<lambda>recs.
     item_loop partner (lookup env cand) recs [])"

text \<open>The cell of \<^verbatim>\<open>example.ipynb\<close>.\<close>

definition interface_residues_with_hirudin :: "env \<Rightarrow> pyval list result" where
  "interface_residues_with_hirudin env =
     interface_residues ''Hirudin variant-1'' ''ACCESSION''
       ''all_predicted_ligand_binding_residues'' env"

text \<open>
  The cell of the second copy of the notebook (\<^verbatim>\<open>src/unnamed/part_000\<close>), which reads
  \<^verbatim>\<open>interactions_data[accession]["data"]\<close> and tests membership in
  \<^verbatim>\<open>all_ligand_binding_residues\<close>.
\<close>

definition interface_residues_with_hirudin_part_000 :: "env \<Rightarrow> pyval list result" where
  "interface_residues_with_hirudin_part_000 env =
     interface_residues ''Hirudin variant-1'' ''accession'' ''all_ligand_binding_residues'' env"

subsection \<open>Step 7: ligands that touch the interface\<close>

text \<open>
  \<^verbatim>\<open>
  for residue in ligand["residues"]:
      if residue["startIndex"] in interface_residues_with_hirudin:
          ligand_list.append(ligand["accession"])
          break
  \<close>
  The inner loop says whether it reached the \<^verbatim>\<open>append\<close>; it stops there.
\<close>

fun residue_loop :: "pyval result \<Rightarrow> pyval list \<Rightarrow> bool result" where
  "residue_loop cand [] = Inr False"
| "residue_loop cand (residue # rest) =
     and_then (subscript residue (PStr ''startIndex'')) (\<lambda>v.
     and_then cand (\<lambda>c.
     and_then (contains c v) (\<lambda>hit.
     if hit then Inr True else residue_loop cand rest)))"

fun ligand_loop :: "pyval result \<Rightarrow> pyval list \<Rightarrow> pyval list \<Rightarrow> pyval list result" where
  "ligand_loop cand [] acc = Inr acc"
| "ligand_loop cand (ligand # rest) acc =
     and_then (subscript ligand (PStr ''residues'')) (\<lambda>rs.
     and_then (iterate rs) (\<lambda>xs.
     and_then (residue_loop cand xs) (\<lambda>hit.
     if hit then
       and_then (subscript ligand (PStr ''accession'')) (\<lambda>a.
       ligand_loop cand rest (acc @ [a]))
     else ligand_loop cand rest acc)))"

definition ligands_overlapping :: "string \<Rightarrow> env \<Rightarrow> pyval list result" where
  "ligands_overlapping acc env =
     and_then (records_of env ''ligands_data'' acc) (\<lambda>recs.
     ligand_loop (lookup env ''interface_residues_with_hirudin'') recs [])"

definition ligand_list :: "env \<Rightarrow> pyval list result" where
  "ligand_list env = ligands_overlapping ''ACCESSION'' env"

definition ligand_list_part_000 :: "env \<Rightarrow> pyval list result" where
  "ligand_list_part_000 env = ligands_overlapping ''accession'' env"

subsection \<open>The cells as updates of the namespace, and the pipeline\<close>

text \<open>
  Each cell first binds its output variable to \<^verbatim>\<open>list()\<close> and then runs its loop. The
  loop variables Python leaves bound afterwards (\<^verbatim>\<open>provider_data\<close>, \<^verbatim>\<open>residues\<close>,
  \<^verbatim>\<open>item\<close>, \<^verbatim>\<open>interacting_residues\<close>, \<^verbatim>\<open>ligand\<close>, \<^verbatim>\<open>residue\<close>) are read by no cell
  before it rebinds them; they are not kept.
\<close>

definition run_cell :: "string \<Rightarrow> (env \<Rightarrow> pyval list result) \<Rightarrow> env \<Rightarrow> env result" where
  "run_cell out cell env =
     and_then (cell (env(out \<mapsto> PList []))) (\<lambda>vs.
     Inr (env(out \<mapsto> PList vs)))"

definition step4_cell :: "env \<Rightarrow> env result" where
  "step4_cell = run_cell ''all_predicted_ligand_binding_residues''
     all_predicted_ligand_binding_residues"

definition step6_cell :: "env \<Rightarrow> env result" where
  "step6_cell = run_cell ''interface_residues_with_hirudin'' interface_residues_with_hirudin"

definition step7_cell :: "env \<Rightarrow> env result" where
  "step7_cell = run_cell ''ligand_list'' ligand_list"

definition pipeline :: "env \<Rightarrow> env result" where
  "pipeline env =
     and_then (step4_cell env) (\<lambda>env4.
     and_then (step6_cell env4) (\<lambda>env6.
     step7_cell env6))"

text \<open>The three output variables of the pipeline.\<close>

definition outputs :: "env \<Rightarrow> pyval option \<times> pyval option \<times> pyval option" where
  "outputs env =
     (env ''all_predicted_ligand_binding_residues'',
      env ''interface_residues_with_hirudin'',
      env ''ligand_list'')"

section \<open>The records of the data model\<close>

text \<open>
  The three kinds of record the endpoints deliver, and how each lies in a decoded
  document. Every record and every residue may carry further fields, which the
  notebook never reads.
\<close>

record residue =
  startIndex :: int
  residue_fields :: "(string \<times> pyval) list"

record annotation =
  providerAccession :: string
  annotation_residues :: "residue list"
  annotation_fields :: "(string \<times> pyval) list"

record partner =
  partnerName :: string
  partner_residues :: "residue list"
  partner_fields :: "(string \<times> pyval) list"

record ligand =
  ligandAccession :: string
  ligand_residues :: "residue list"
  ligand_fields :: "(string \<times> pyval) list"

definition enc_residue :: "residue \<Rightarrow> pyval" where
  "enc_residue r = PDict ((''startIndex'', PInt (startIndex r)) # residue_fields r)"

definition enc_annotation :: "annotation \<Rightarrow> pyval" where
  "enc_annotation a =
     PDict ((''accession'', PStr (providerAccession a))
          # (''residues'', PList (map enc_residue (annotation_residues a)))
          # annotation_fields a)"

definition enc_partner :: "partner \<Rightarrow> pyval" where
  "enc_partner p =
     PDict ((''name'', PStr (partnerName p))
          # (''residues'', PList (map enc_residue (partner_residues p)))
          # partner_fields p)"

definition enc_ligand :: "ligand \<Rightarrow> pyval" where
  "enc_ligand l =
     PDict ((''accession'', PStr (ligandAccession l))
          # (''residues'', PList (map enc_residue (ligand_residues l)))
          # ligand_fields l)"

text \<open>
  A document of an endpoint: keyed by the accession, then by \<^verbatim>\<open>"data"\<close>, beside
  whatever other fields the entry has.
\<close>

definition document :: "string \<Rightarrow> pyval list \<Rightarrow> (string \<times> pyval) list \<Rightarrow> pyval" where
  "document acc recs other = PDict [(acc, PDict ((''data'', PList recs) # other))]"

text \<open>
  The key whose absence makes \<^verbatim>\<open>doc[ACCESSION]["data"]\<close> fail on a document that is a
  dict: the accession, or \<^verbatim>\<open>"data"\<close> in the entry of the accession.
\<close>

fun missing_key :: "string \<Rightarrow> pyval \<Rightarrow> string option" where
  "missing_key acc (PDict kvs) =
     (case map_of kvs acc of
        None \<Rightarrow> Some acc
      | Some (PDict entry) \<Rightarrow> (if map_of entry ''data'' = None then Some ''data'' else None)
      | Some v \<Rightarrow> None)"
| "missing_key acc v = None"

subsection \<open>The three operations as the specification words them\<close>

text \<open>
  For each record whose provider identifier is in the allowlist, every residue's
  \<open>startIndex\<close>, in encounter order and with duplicates.
\<close>

definition extractPredictedBindingResidues :: "annotation list \<Rightarrow> string list \<Rightarrow> int list" where
  "extractPredictedBindingResidues annotationRecords providerAllowlist =
     concat (map (\<lambda>a. map startIndex (annotation_residues a))
       (filter (\<lambda>a. providerAccession a \<in> set providerAllowlist) annotationRecords))"

text \<open>
  For each record whose partner name equals the target, the \<open>startIndex\<close> values that
  are members of the candidate set, in order.
\<close>

definition extractInterfaceResidues :: "partner list \<Rightarrow> string \<Rightarrow> int set \<Rightarrow> int list" where
  "extractInterfaceResidues interactionRecords name candidateSet =
     concat (map (\<lambda>p. filter (\<lambda>i. i \<in> candidateSet) (map startIndex (partner_residues p)))
       (filter (\<lambda>p. partnerName p = name) interactionRecords))"

text \<open>The residue indices of the records of one partner name, in encounter order.\<close>

definition residues_named :: "string \<Rightarrow> partner list \<Rightarrow> int list" where
  "residues_named name interactionRecords =
     concat (map (\<lambda>p. map startIndex (partner_residues p))
       (filter (\<lambda>p. partnerName p = name) interactionRecords))"

text \<open>
  The accession of each record that has a residue whose \<open>startIndex\<close> is in the target
  set, once per record.
\<close>

definition qualifies :: "int set \<Rightarrow> ligand \<Rightarrow> bool" where
  "qualifies targetResidueSet l = (\<exists>r \<in> set (ligand_residues l). startIndex r \<in> targetResidueSet)"

definition extractLigandsOverlapping :: "ligand list \<Rightarrow> int set \<Rightarrow> string list" where
  "extractLigandsOverlapping ligandRecords targetResidueSet =
     map ligandAccession (filter (qualifies targetResidueSet) ligandRecords)"

section \<open>A small run of the notebook\<close>

text \<open>
  Step 2 of the notebook, and documents in the shape of the three endpoints, small enough
  to follow by hand. One provider is outside the allowlist, residue 388 is predicted by
  both allowed providers, one partner differs from the queried one only in case, and
  the ligand \<^verbatim>\<open>TYS\<close> occurs in two records.
\<close>

definition ACCESSION :: string where
  "ACCESSION = ''P00734''"

definition ANNOTATIONS_URL :: string where
  "ANNOTATIONS_URL = ''https://www.ebi.ac.uk/pdbe/graph-api/uniprot/annotations/'' @ ACCESSION"

definition res :: "int \<Rightarrow> residue" where
  "res i = \<lparr>startIndex = i, residue_fields = [(''endIndex'', PInt i)]\<rparr>"

definition example_annotations :: "annotation list" where
  "example_annotations =
     [\<lparr>providerAccession = ''p2rank'',
        annotation_residues = map res [388, 406, 434, 541, 617], annotation_fields = []\<rparr>,
      \<lparr>providerAccession = ''14-3-3-pred'',
        annotation_residues = map res [100, 388], annotation_fields = []\<rparr>,
      \<lparr>providerAccession = ''cansar'',
        annotation_residues = map res [565, 566, 568, 589, 591, 388],
        annotation_fields = [(''name'', PStr ''canSAR'')]\<rparr>]"

definition hirudin_residues :: "int list" where
  "hirudin_residues = [367, 388, 405, 406, 434, 435, 541, 565, 566, 568, 589, 591, 592]"

definition example_partners :: "partner list" where
  "example_partners =
     [\<lparr>partnerName = ''Prothrombin'',
        partner_residues = map res [100, 388], partner_fields = []\<rparr>,
      \<lparr>partnerName = ''Hirudin variant-1'',
        partner_residues = map res hirudin_residues, partner_fields = []\<rparr>,
      \<lparr>partnerName = ''hirudin variant-1'',
        partner_residues = map res [617], partner_fields = []\<rparr>,
      \<lparr>partnerName = ''Hirudin-2'',
        partner_residues = map res [617], partner_fields = []\<rparr>]"

definition example_ligands :: "ligand list" where
  "example_ligands =
     [\<lparr>ligandAccession = ''TYS'',
        ligand_residues = map res [100, 388, 406], ligand_fields = []\<rparr>,
      \<lparr>ligandAccession = ''GOL'',
        ligand_residues = map res [100, 617], ligand_fields = []\<rparr>,
      \<lparr>ligandAccession = ''TYS'',
        ligand_residues = map res [591], ligand_fields = []\<rparr>,
      \<lparr>ligandAccession = ''NA'',
        ligand_residues = [], ligand_fields = []\<rparr>]"

definition fetched :: env where
  "fetched =
     [''ACCESSION'' \<mapsto> PStr ACCESSION,
      ''annotations_data'' \<mapsto>
         document ACCESSION (map enc_annotation example_annotations) [(''length'', PInt 622)],
      ''interactions_data'' \<mapsto> document ACCESSION (map enc_partner example_partners) [],
      ''ligands_data'' \<mapsto> document ACCESSION (map enc_ligand example_ligands) []]"

text \<open>The namespace after each of the three cells has run on these documents.\<close>

definition predicted :: "int list" where
  "predicted = [388, 406, 434, 541, 617, 565, 566, 568, 589, 591, 388]"

definition expected_interface :: "int list" where
  "expected_interface = [388, 406, 434, 541, 565, 566, 568, 589, 591]"

definition after_step4 :: env where
  "after_step4 = fetched(''all_predicted_ligand_binding_residues'' \<mapsto> PList (map PInt predicted))"

definition after_step6 :: env where
  "after_step6 =
     after_step4(''interface_residues_with_hirudin'' \<mapsto> PList (map PInt expected_interface))"

definition after_step7 :: env where
  "after_step7 = after_step6(''ligand_list'' \<mapsto> PList (map PStr [''TYS'', ''TYS'']))"

text \<open>
  The predicted residues the notebook prints after Step 4 (the output recorded in
  \<^verbatim>\<open>example.ipynb\<close>).
\<close>

definition notebook_predicted :: "int list" where
  "notebook_predicted =
     [136, 237, 246, 251, 265, 273, 324, 329, 330, 331, 332, 333, 334, 336, 372, 383, 386,
      388, 389, 390, 391, 396, 400, 406, 407, 410, 413, 414, 415, 417, 434, 436, 459, 493,
      506, 507, 510, 511, 530, 541, 549, 565, 566, 568, 572, 574, 585, 589, 590, 591, 596,
      597, 605, 613, 615, 617]"

text \<open>A ligand document with 279 qualifying records and one that does not qualify.\<close>

definition many_ligands :: "ligand list" where
  "many_ligands =
     \<lparr>ligandAccession = ''GOL'', ligand_residues = map res [100], ligand_fields = []\<rparr>
     # replicate 279
         \<lparr>ligandAccession = ''TYS'', ligand_residues = map res [100, 591, 388],
          ligand_fields = []\<rparr>"

text \<open>A decoder that knows one body, and two responses.\<close>

definition toy_decode :: decoder where
  "toy_decode b = (if b = ''{}'' then Some (PDict []) else None)"

definition ok_response :: response where
  "ok_response = \<lparr>status_code = 200, body = ''{}''\<rparr>"

definition not_found_response :: response where
  "not_found_response = \<lparr>status_code = 404, body = ''{}''\<rparr>"

text \<open>A network on which every GET fails.\<close>

definition unreachable :: http where
  "unreachable url = Inl ''Name or service not known''"

definition html_response :: response where
  "html_response = \<lparr>status_code = 200, body = ''<html>''\<rparr>"

text \<open>
  The namespace \<open>fetched\<close> with output variables left over from an earlier run, and
  documents in which a key is missing.
\<close>

definition stale :: env where
  "stale = fetched(''all_predicted_ligand_binding_residues'' \<mapsto> PList [PInt 1],
                   ''ligand_list'' \<mapsto> PList [PStr ''GOL''])"

definition other_accession :: env where
  "other_accession = fetched(''annotations_data'' \<mapsto> document ''Q99999'' [] [])"

definition no_data :: env where
  "no_data =
     fetched(''ligands_data'' \<mapsto> PDict [(ACCESSION, PDict [(''sequence'', PStr ''MAHVRGLQLPG'')])])"

text \<open>
  The namespace before each cell, with the records of the cell's document replaced.
\<close>

definition with_annotations :: "pyval list \<Rightarrow> env" where
  "with_annotations recs = fetched(''annotations_data'' \<mapsto> document ACCESSION recs [])"

definition with_partners :: "pyval list \<Rightarrow> env" where
  "with_partners recs = after_step4(''interactions_data'' \<mapsto> document ACCESSION recs [])"

definition with_ligands :: "pyval list \<Rightarrow> env" where
  "with_ligands recs = after_step6(''ligands_data'' \<mapsto> document ACCESSION recs [])"

text \<open>A residue without \<^verbatim>\<open>startIndex\<close>.\<close>

definition no_start :: "(string \<times> pyval) list" where
  "no_start = [(''endIndex'', PInt 388)]"

definition env_many :: env where
  "env_many = after_step6(''ligands_data'' \<mapsto> document ACCESSION (map enc_ligand many_ligands) [])"

text \<open>The namespace after Step 4 when Step 4 has printed what the notebook records.\<close>

definition env_notebook :: env where
  "env_notebook =
     fetched(''all_predicted_ligand_binding_residues'' \<mapsto> PList (map PInt notebook_predicted))"

section \<open>Properties\<close>

subsection \<open>Running the loops on well-formed records\<close>

lemma and_then_simps [simp]: "and_then (Inl e) f = Inl e" "and_then (Inr v) f = f v"
  by (simp_all add: and_then_def)

lemma subscript_enc_residue [simp]:
  "subscript (enc_residue r) (PStr ''startIndex'') = Inr (PInt (startIndex r))"
  by (simp add: enc_residue_def)

lemma start_indices_enc [simp]:
  "start_indices (map enc_residue rs) = Inr (map (\<lambda>r. PInt (startIndex r)) rs)"
  by (induction rs) simp_all

lemma list_ex_strs [simp]:
  "list_ex (\<lambda>e. py_eq e (PStr p)) (map PStr allow) = (p \<in> set allow)"
  by (induction allow) auto

lemma list_ex_ints [simp]:
  "list_ex (\<lambda>e. py_eq e (PInt i)) (map PInt C) = (i \<in> set C)"
  by (induction C) auto

lemma records_of_document:
  "env doc = Some (document a recs other) \<Longrightarrow> env acc = Some (PStr a) \<Longrightarrow>
     records_of env doc acc = Inr recs"
  by (simp add: records_of_def lookup_def document_def)

lemma provider_loop_enc:
  "provider_loop (map PStr allow) (map enc_annotation recs) acc =
     Inr (acc @ map PInt (extractPredictedBindingResidues recs allow))"
  by (induction recs arbitrary: acc)
     (simp_all add: extractPredictedBindingResidues_def enc_annotation_def)

lemma interacting_enc [simp]:
  "interacting (Inr (PList (map PInt C))) (map enc_residue rs) =
     Inr (map PInt (filter (\<lambda>i. i \<in> set C) (map startIndex rs)))"
  by (induction rs) simp_all

lemma item_loop_enc:
  "item_loop name (Inr (PList (map PInt C))) (map enc_partner recs) acc =
     Inr (acc @ map PInt (extractInterfaceResidues recs name (set C)))"
  by (induction recs arbitrary: acc)
     (simp_all add: extractInterfaceResidues_def enc_partner_def)

lemma residue_loop_enc [simp]:
  "residue_loop (Inr (PList (map PInt T))) (map enc_residue rs) =
     Inr (\<exists>r \<in> set rs. startIndex r \<in> set T)"
  by (induction rs) simp_all

lemma ligand_loop_enc:
  "ligand_loop (Inr (PList (map PInt T))) (map enc_ligand recs) acc =
     Inr (acc @ map PStr (extractLigandsOverlapping recs (set T)))"
  by (induction recs arbitrary: acc)
     (simp_all add: extractLigandsOverlapping_def enc_ligand_def qualifies_def)

lemma fetched_simps:
  "fetched ''ACCESSION'' = Some (PStr ACCESSION)"
  "fetched ''annotations_data'' =
     Some (document ACCESSION (map enc_annotation example_annotations) [(''length'', PInt 622)])"
  "fetched ''interactions_data'' = Some (document ACCESSION (map enc_partner example_partners) [])"
  "fetched ''ligands_data'' = Some (document ACCESSION (map enc_ligand example_ligands) [])"
  by (simp_all add: fetched_def)

lemma predicted_residues_enc:
  assumes "env ''ACCESSION'' = Some (PStr acc)"
    and "env ''annotations_data'' = Some (document acc (map enc_annotation recs) other)"
  shows "predicted_residues allow env =
           Inr (map PInt (extractPredictedBindingResidues recs allow))"
  by (simp add: predicted_residues_def records_of_document [OF assms(2) assms(1)]
      provider_loop_enc)

lemma interface_residues_enc:
  assumes "env ''ACCESSION'' = Some (PStr acc)"
    and "env ''interactions_data'' = Some (document acc (map enc_partner recs) other)"
    and "env ''all_predicted_ligand_binding_residues'' = Some (PList (map PInt C))"
  shows "interface_residues name ''ACCESSION'' ''all_predicted_ligand_binding_residues'' env =
           Inr (map PInt (extractInterfaceResidues recs name (set C)))"
  by (simp add: interface_residues_def records_of_document [OF assms(2) assms(1)]
      lookup_def assms(3) item_loop_enc)

lemma ligand_list_enc:
  assumes "env ''ACCESSION'' = Some (PStr acc)"
    and "env ''ligands_data'' = Some (document acc (map enc_ligand recs) other)"
    and "env ''interface_residues_with_hirudin'' = Some (PList (map PInt T))"
  shows "ligand_list env = Inr (map PStr (extractLigandsOverlapping recs (set T)))"
  by (simp add: ligand_list_def ligands_overlapping_def
      records_of_document [OF assms(2) assms(1)] lookup_def assms(3) ligand_loop_enc)

subsection \<open>What each cell reads\<close>

text \<open>
  A cell reads only its document, the accession and, for Steps 6 and 7, the list of the
  cell before; rebinding an output variable of its own or of a later cell changes
  nothing.
\<close>

lemma all_predicted_frame:
  "e1 ''ACCESSION'' = e2 ''ACCESSION'' \<Longrightarrow> e1 ''annotations_data'' = e2 ''annotations_data'' \<Longrightarrow>
     all_predicted_ligand_binding_residues e1 = all_predicted_ligand_binding_residues e2"
  by (simp add: all_predicted_ligand_binding_residues_def predicted_residues_def
      records_of_def lookup_def)

lemma interface_frame:
  "e1 ''ACCESSION'' = e2 ''ACCESSION'' \<Longrightarrow> e1 ''interactions_data'' = e2 ''interactions_data'' \<Longrightarrow>
   e1 ''all_predicted_ligand_binding_residues'' = e2 ''all_predicted_ligand_binding_residues'' \<Longrightarrow>
     interface_residues_with_hirudin e1 = interface_residues_with_hirudin e2"
  by (simp add: interface_residues_with_hirudin_def interface_residues_def
      records_of_def lookup_def)

lemma ligand_list_frame:
  "e1 ''ACCESSION'' = e2 ''ACCESSION'' \<Longrightarrow> e1 ''ligands_data'' = e2 ''ligands_data'' \<Longrightarrow>
   e1 ''interface_residues_with_hirudin'' = e2 ''interface_residues_with_hirudin'' \<Longrightarrow>
     ligand_list e1 = ligand_list e2"
  by (simp add: ligand_list_def ligands_overlapping_def records_of_def lookup_def)

lemma all_predicted_upd [simp]:
  "all_predicted_ligand_binding_residues (env(''all_predicted_ligand_binding_residues'' \<mapsto> v)) =
     all_predicted_ligand_binding_residues env"
  "all_predicted_ligand_binding_residues (env(''interface_residues_with_hirudin'' \<mapsto> v)) =
     all_predicted_ligand_binding_residues env"
  "all_predicted_ligand_binding_residues (env(''ligand_list'' \<mapsto> v)) =
     all_predicted_ligand_binding_residues env"
  by (rule all_predicted_frame; simp)+

lemma interface_upd [simp]:
  "interface_residues_with_hirudin (env(''interface_residues_with_hirudin'' \<mapsto> v)) =
     interface_residues_with_hirudin env"
  "interface_residues_with_hirudin (env(''ligand_list'' \<mapsto> v)) =
     interface_residues_with_hirudin env"
  by (rule interface_frame; simp)+

lemma ligand_list_upd [simp]:
  "ligand_list (env(''ligand_list'' \<mapsto> v)) = ligand_list env"
  by (rule ligand_list_frame; simp)

lemma step_cells:
  "step4_cell env =
     and_then (all_predicted_ligand_binding_residues env)
       (\<lambda>vs. Inr (env(''all_predicted_ligand_binding_residues'' \<mapsto> PList vs)))"
  "step6_cell env =
     and_then (interface_residues_with_hirudin env)
       (\<lambda>vs. Inr (env(''interface_residues_with_hirudin'' \<mapsto> PList vs)))"
  "step7_cell env =
     and_then (ligand_list env) (\<lambda>vs. Inr (env(''ligand_list'' \<mapsto> PList vs)))"
  by (simp_all add: step4_cell_def step6_cell_def step7_cell_def run_cell_def)

lemma pipeline_unfold:
  "pipeline env =
     and_then (all_predicted_ligand_binding_residues env) (\<lambda>a.
     and_then (interface_residues_with_hirudin
                 (env(''all_predicted_ligand_binding_residues'' \<mapsto> PList a))) (\<lambda>i.
     and_then (ligand_list
                 (env(''all_predicted_ligand_binding_residues'' \<mapsto> PList a,
                      ''interface_residues_with_hirudin'' \<mapsto> PList i))) (\<lambda>l.
     Inr (env(''all_predicted_ligand_binding_residues'' \<mapsto> PList a,
              ''interface_residues_with_hirudin'' \<mapsto> PList i,
              ''ligand_list'' \<mapsto> PList l)))))"
  by (simp add: pipeline_def step_cells and_then_def split: sum.splits)

subsection \<open>The small run\<close>

lemma example_values:
  "extractPredictedBindingResidues example_annotations [''p2rank'', ''cansar''] = predicted"
  "extractInterfaceResidues example_partners ''Hirudin variant-1'' (set predicted) =
     expected_interface"
  "extractLigandsOverlapping example_ligands (set expected_interface) = [''TYS'', ''TYS'']"
  by (simp_all add: extractPredictedBindingResidues_def extractInterfaceResidues_def
      extractLigandsOverlapping_def qualifies_def example_annotations_def example_partners_def
      example_ligands_def hirudin_residues_def predicted_def expected_interface_def res_def)

lemma after_step4_simps:
  "after_step4 ''ACCESSION'' = Some (PStr ACCESSION)"
  "after_step4 ''interactions_data'' =
     Some (document ACCESSION (map enc_partner example_partners) [])"
  "after_step4 ''all_predicted_ligand_binding_residues'' = Some (PList (map PInt predicted))"
  "after_step4 ''accession'' = None"
  by (simp_all add: after_step4_def fetched_def)

lemma after_step6_simps:
  "after_step6 ''ACCESSION'' = Some (PStr ACCESSION)"
  "after_step6 ''ligands_data'' = Some (document ACCESSION (map enc_ligand example_ligands) [])"
  "after_step6 ''interface_residues_with_hirudin'' = Some (PList (map PInt expected_interface))"
  "after_step6 ''accession'' = None"
  by (simp_all add: after_step6_def after_step4_def fetched_def)

lemma example_run:
  "all_predicted_ligand_binding_residues fetched = Inr (map PInt predicted)"
  "interface_residues_with_hirudin after_step4 = Inr (map PInt expected_interface)"
  "ligand_list after_step6 = Inr (map PStr [''TYS'', ''TYS''])"
proof -
  show "all_predicted_ligand_binding_residues fetched = Inr (map PInt predicted)"
    unfolding all_predicted_ligand_binding_residues_def
    by (simp only: predicted_residues_enc [OF fetched_simps(1) fetched_simps(2)] example_values)
  show "interface_residues_with_hirudin after_step4 = Inr (map PInt expected_interface)"
    unfolding interface_residues_with_hirudin_def
    by (simp only: interface_residues_enc [OF after_step4_simps(1-3)] example_values)
  show "ligand_list after_step6 = Inr (map PStr [''TYS'', ''TYS''])"
    by (simp only: ligand_list_enc [OF after_step6_simps(1-3)] example_values)
qed

lemma example_pipeline: "pipeline fetched = Inr after_step7"
  by (simp add: pipeline_unfold example_run after_step4_def [symmetric]
      after_step6_def [symmetric] after_step7_def)

section \<open>The claims\<close>

subsection \<open>Step 4: predicted binding residues\<close>

text \<open>
  Claim C2. For every list of annotation records and every allowlist of providers, the
  cell of Step 4 yields exactly the \<open>startIndex\<close> values of the residues of the records
  whose provider is in the allowlist, concatenated in encounter order with duplicates
  kept; a record outside the allowlist contributes nothing, and when no provider is in
  the allowlist the result is the empty list and nothing is raised. The notebook's cell
  is the instance for the allowlist \<^verbatim>\<open>["p2rank", "cansar"]\<close>.
\<close>

theorem predicted_residues_exact:
  assumes "env ''ACCESSION'' = Some (PStr acc)"
    and "env ''annotations_data'' = Some (document acc (map enc_annotation recs) other)"
  shows "predicted_residues allow env =
           Inr (map PInt (concat (map (\<lambda>a. map startIndex (annotation_residues a))
                  (filter (\<lambda>a. providerAccession a \<in> set allow) recs))))
       \<and> predicted_residues allow env =
           Inr (map PInt (extractPredictedBindingResidues recs allow))
       \<and> ((\<forall>a \<in> set recs. providerAccession a \<notin> set allow) \<longrightarrow>
           predicted_residues allow env = Inr [])
       \<and> all_predicted_ligand_binding_residues env =
           Inr (map PInt (extractPredictedBindingResidues recs [''p2rank'', ''cansar'']))
       \<and> step4_cell env =
           Inr (env(''all_predicted_ligand_binding_residues'' \<mapsto>
             PList (map PInt (extractPredictedBindingResidues recs [''p2rank'', ''cansar'']))))"
proof -
  have main: "predicted_residues ps env =
      Inr (map PInt (extractPredictedBindingResidues recs ps))" for ps
    by (rule predicted_residues_enc [OF assms])
  have explicit: "predicted_residues allow env =
      Inr (map PInt (concat (map (\<lambda>a. map startIndex (annotation_residues a))
             (filter (\<lambda>a. providerAccession a \<in> set allow) recs))))"
    by (simp add: main extractPredictedBindingResidues_def)
  have "filter (\<lambda>a. providerAccession a \<in> set allow) recs = []"
    if "\<forall>a \<in> set recs. providerAccession a \<notin> set allow"
    using that by (simp add: filter_empty_conv)
  then have none: "(\<forall>a \<in> set recs. providerAccession a \<notin> set allow) \<longrightarrow>
      predicted_residues allow env = Inr []"
    by (simp add: main extractPredictedBindingResidues_def)
  have literal: "all_predicted_ligand_binding_residues env =
      Inr (map PInt (extractPredictedBindingResidues recs [''p2rank'', ''cansar'']))"
    by (simp add: all_predicted_ligand_binding_residues_def main)
  have cell: "step4_cell env =
      Inr (env(''all_predicted_ligand_binding_residues'' \<mapsto>
        PList (map PInt (extractPredictedBindingResidues recs [''p2rank'', ''cansar'']))))"
    by (simp add: step_cells literal)
  show ?thesis
    by (intro conjI) (fact explicit main none literal cell)+
qed

theorem predicted_residues_exact_witness:
  "fetched ''ACCESSION'' = Some (PStr ACCESSION)
   \<and> fetched ''annotations_data'' =
       Some (document ACCESSION (map enc_annotation example_annotations) [(''length'', PInt 622)])
   \<and> all_predicted_ligand_binding_residues fetched =
       Inr (map PInt [388, 406, 434, 541, 617, 565, 566, 568, 589, 591, 388])
   \<and> predicted_residues [''funsites''] fetched = Inr []"
  using predicted_residues_exact [OF fetched_simps(1) fetched_simps(2), of "[''funsites'']"]
  by (simp add: fetched_simps extractPredictedBindingResidues_def example_annotations_def res_def)

subsection \<open>Step 6: interface residues\<close>

lemma set_extractInterfaceResidues: "set (extractInterfaceResidues recs name C) \<subseteq> C"
  by (auto simp: extractInterfaceResidues_def)

lemma extractInterfaceResidues_origin:
  "i \<in> set (extractInterfaceResidues recs name C) \<Longrightarrow>
     \<exists>p \<in> set recs. partnerName p = name \<and> i \<in> startIndex ` set (partner_residues p)"
  by (auto simp: extractInterfaceResidues_def)

text \<open>
  Claim C3. For every list of interaction records, every queried partner name and every
  candidate list \<open>C\<close>, the cell of Step 6 yields, record by record in source order, the
  \<open>startIndex\<close> values that are in \<open>C\<close> of the records whose name is equal to the queried
  name, character for character. So every element of the output is a member of \<open>C\<close> and
  comes from a record of that name; and when no record has that name the output is the
  empty list, not an error, whatever \<open>C\<close> is. The notebook's cell is the instance for
  \<^verbatim>\<open>"Hirudin variant-1"\<close>.
\<close>

theorem interface_residues_exact:
  assumes "env ''ACCESSION'' = Some (PStr acc)"
    and "env ''interactions_data'' = Some (document acc (map enc_partner recs) other)"
    and "env ''all_predicted_ligand_binding_residues'' = Some (PList (map PInt C))"
  shows "interface_residues name ''ACCESSION'' ''all_predicted_ligand_binding_residues'' env =
           Inr (map PInt (concat (map
                  (\<lambda>p. filter (\<lambda>i. i \<in> set C) (map startIndex (partner_residues p)))
                  (filter (\<lambda>p. partnerName p = name) recs))))
       \<and> interface_residues name ''ACCESSION'' ''all_predicted_ligand_binding_residues'' env =
           Inr (map PInt (extractInterfaceResidues recs name (set C)))
       \<and> set (extractInterfaceResidues recs name (set C)) \<subseteq> set C
       \<and> (\<forall>i \<in> set (extractInterfaceResidues recs name (set C)).
             \<exists>p \<in> set recs. partnerName p = name \<and> i \<in> startIndex ` set (partner_residues p))
       \<and> ((\<forall>p \<in> set recs. partnerName p \<noteq> name) \<longrightarrow>
             interface_residues name ''ACCESSION'' ''all_predicted_ligand_binding_residues'' env
               = Inr [])
       \<and> interface_residues_with_hirudin env =
           Inr (map PInt (extractInterfaceResidues recs ''Hirudin variant-1'' (set C)))
       \<and> step6_cell env =
           Inr (env(''interface_residues_with_hirudin'' \<mapsto>
             PList (map PInt (extractInterfaceResidues recs ''Hirudin variant-1'' (set C)))))"
proof -
  let ?run = "interface_residues name ''ACCESSION'' ''all_predicted_ligand_binding_residues''"
  have main: "interface_residues n ''ACCESSION'' ''all_predicted_ligand_binding_residues'' env =
      Inr (map PInt (extractInterfaceResidues recs n (set C)))" for n
    by (rule interface_residues_enc [OF assms])
  have explicit: "?run env =
      Inr (map PInt (concat (map
             (\<lambda>p. filter (\<lambda>i. i \<in> set C) (map startIndex (partner_residues p)))
             (filter (\<lambda>p. partnerName p = name) recs))))"
    by (simp add: main extractInterfaceResidues_def)
  have sub: "set (extractInterfaceResidues recs name (set C)) \<subseteq> set C"
    by (rule set_extractInterfaceResidues)
  have origin: "\<forall>i \<in> set (extractInterfaceResidues recs name (set C)).
      \<exists>p \<in> set recs. partnerName p = name \<and> i \<in> startIndex ` set (partner_residues p)"
    by (blast dest: extractInterfaceResidues_origin)
  have "filter (\<lambda>p. partnerName p = name) recs = []"
    if "\<forall>p \<in> set recs. partnerName p \<noteq> name"
    using that by (simp add: filter_empty_conv)
  then have none: "(\<forall>p \<in> set recs. partnerName p \<noteq> name) \<longrightarrow> ?run env = Inr []"
    by (simp add: main extractInterfaceResidues_def)
  have literal: "interface_residues_with_hirudin env =
      Inr (map PInt (extractInterfaceResidues recs ''Hirudin variant-1'' (set C)))"
    by (simp add: interface_residues_with_hirudin_def main)
  have cell: "step6_cell env =
      Inr (env(''interface_residues_with_hirudin'' \<mapsto>
        PList (map PInt (extractInterfaceResidues recs ''Hirudin variant-1'' (set C)))))"
    by (simp add: step_cells literal)
  show ?thesis
    by (intro conjI) (fact explicit main sub origin none literal cell)+
qed

text \<open>
  On the small run: the record named \<^verbatim>\<open>hirudin variant-1\<close> has the predicted residue
  617, and contributes nothing; no record is named \<^verbatim>\<open>Hirudin\<close>.
\<close>

theorem interface_residues_exact_witness:
  "after_step4 ''ACCESSION'' = Some (PStr ACCESSION)
   \<and> after_step4 ''interactions_data'' =
       Some (document ACCESSION (map enc_partner example_partners) [])
   \<and> after_step4 ''all_predicted_ligand_binding_residues'' = Some (PList (map PInt predicted))
   \<and> interface_residues_with_hirudin after_step4 =
       Inr (map PInt [388, 406, 434, 541, 565, 566, 568, 589, 591])
   \<and> interface_residues ''Hirudin'' ''ACCESSION'' ''all_predicted_ligand_binding_residues''
       after_step4 = Inr []"
proof -
  note run = interface_residues_exact [OF after_step4_simps(1-3)]
  have hirudin: "interface_residues_with_hirudin after_step4 =
      Inr (map PInt (extractInterfaceResidues example_partners ''Hirudin variant-1''
             (set predicted)))"
    using run [of "''Hirudin variant-1''"] by (elim conjE)
  have "(\<forall>p \<in> set example_partners. partnerName p \<noteq> ''Hirudin'') \<longrightarrow>
      interface_residues ''Hirudin'' ''ACCESSION'' ''all_predicted_ligand_binding_residues''
        after_step4 = Inr []"
    using run [of "''Hirudin''"] by (elim conjE)
  then have none: "interface_residues ''Hirudin'' ''ACCESSION''
      ''all_predicted_ligand_binding_residues'' after_step4 = Inr []"
    by (simp add: example_partners_def)
  show ?thesis
    by (simp add: after_step4_simps hirudin none example_values expected_interface_def)
qed

subsection \<open>Step 7: ligands\<close>

lemma residue_loop_break:
  "\<exists>r \<in> set rs. startIndex r \<in> set T \<Longrightarrow>
     residue_loop (Inr (PList (map PInt T))) (map enc_residue rs @ unread) = Inr True"
  by (induction rs) auto

text \<open>
  Claim C1. For every list of ligand records and every target list \<open>T\<close>, the cell of
  Step 7 appends the accession of a record once if the record has a residue whose
  \<open>startIndex\<close> is in \<open>T\<close>, and nothing if it has none; so the length of the output
  is the number of qualifying records, 279 when there are 279 of them. The inner loop
  stops at the first residue in \<open>T\<close>: whatever follows it in the record's list is not
  read (last conjunct, where \<open>unread\<close> is any list of values, well formed or not).
\<close>

theorem ligand_list_exact:
  assumes "env ''ACCESSION'' = Some (PStr acc)"
    and "env ''ligands_data'' = Some (document acc (map enc_ligand recs) other)"
    and "env ''interface_residues_with_hirudin'' = Some (PList (map PInt T))"
  shows "ligand_list env =
           Inr (map PStr (map ligandAccession
                  (filter (\<lambda>l. \<exists>r \<in> set (ligand_residues l). startIndex r \<in> set T) recs)))
       \<and> ligand_list env = Inr (map PStr (extractLigandsOverlapping recs (set T)))
       \<and> length (extractLigandsOverlapping recs (set T)) =
           length (filter (qualifies (set T)) recs)
       \<and> (length (filter (qualifies (set T)) recs) = 279 \<longrightarrow>
             (\<exists>out. ligand_list env = Inr out \<and> length out = 279))
       \<and> ((\<forall>l \<in> set recs. \<not> qualifies (set T) l) \<longrightarrow> ligand_list env = Inr [])
       \<and> step7_cell env =
           Inr (env(''ligand_list'' \<mapsto> PList (map PStr (extractLigandsOverlapping recs (set T)))))
       \<and> ((\<exists>r \<in> set rs. startIndex r \<in> set T) \<longrightarrow>
             residue_loop (Inr (PList (map PInt T))) (map enc_residue rs @ unread) = Inr True)"
proof -
  have main: "ligand_list env = Inr (map PStr (extractLigandsOverlapping recs (set T)))"
    by (rule ligand_list_enc [OF assms])
  have explicit: "ligand_list env =
      Inr (map PStr (map ligandAccession
             (filter (\<lambda>l. \<exists>r \<in> set (ligand_residues l). startIndex r \<in> set T) recs)))"
    by (simp add: main extractLigandsOverlapping_def qualifies_def [abs_def])
  have len: "length (extractLigandsOverlapping recs (set T)) =
      length (filter (qualifies (set T)) recs)"
    by (simp add: extractLigandsOverlapping_def)
  have scenario: "length (filter (qualifies (set T)) recs) = 279 \<longrightarrow>
      (\<exists>out. ligand_list env = Inr out \<and> length out = 279)"
    by (simp add: main len)
  have "filter (qualifies (set T)) recs = []" if "\<forall>l \<in> set recs. \<not> qualifies (set T) l"
    using that by (simp add: filter_empty_conv)
  then have none: "(\<forall>l \<in> set recs. \<not> qualifies (set T) l) \<longrightarrow> ligand_list env = Inr []"
    by (simp add: main extractLigandsOverlapping_def)
  have cell: "step7_cell env =
      Inr (env(''ligand_list'' \<mapsto> PList (map PStr (extractLigandsOverlapping recs (set T)))))"
    by (simp add: step_cells main)
  have break: "(\<exists>r \<in> set rs. startIndex r \<in> set T) \<longrightarrow>
      residue_loop (Inr (PList (map PInt T))) (map enc_residue rs @ unread) = Inr True"
    by (blast intro: residue_loop_break)
  show ?thesis
    by (intro conjI) (fact explicit main len scenario none cell break)+
qed

theorem ligand_list_exact_witness:
  "after_step6 ''ACCESSION'' = Some (PStr ACCESSION)
   \<and> after_step6 ''ligands_data'' = Some (document ACCESSION (map enc_ligand example_ligands) [])
   \<and> after_step6 ''interface_residues_with_hirudin'' = Some (PList (map PInt expected_interface))
   \<and> ligand_list after_step6 = Inr [PStr ''TYS'', PStr ''TYS'']
   \<and> length (filter (qualifies (set expected_interface)) many_ligands) = 279
   \<and> (\<exists>out. ligand_list env_many = Inr out \<and> length out = 279)
   \<and> residue_loop (Inr (PList (map PInt expected_interface)))
        (map enc_residue [res 100, res 591] @ [PNone, PStr ''388'']) = Inr True"
proof -
  have small: "ligand_list after_step6 =
      Inr (map PStr (extractLigandsOverlapping example_ligands (set expected_interface)))"
    using ligand_list_exact [OF after_step6_simps(1-3), where rs = "[]" and unread = "[]"]
    by (elim conjE)
  have many: "env_many ''ACCESSION'' = Some (PStr ACCESSION)"
    "env_many ''ligands_data'' = Some (document ACCESSION (map enc_ligand many_ligands) [])"
    "env_many ''interface_residues_with_hirudin'' = Some (PList (map PInt expected_interface))"
    by (simp_all add: env_many_def after_step6_simps)
  have count: "length (filter (qualifies (set expected_interface)) many_ligands) = 279"
    by (simp add: many_ligands_def qualifies_def expected_interface_def res_def)
  have "length (filter (qualifies (set expected_interface)) many_ligands) = 279 \<longrightarrow>
      (\<exists>out. ligand_list env_many = Inr out \<and> length out = 279)"
    using ligand_list_exact [OF many, where rs = "[]" and unread = "[]"] by (elim conjE)
  with count have scenario: "\<exists>out. ligand_list env_many = Inr out \<and> length out = 279"
    by (elim impE)
  have "(\<exists>r \<in> set [res 100, res 591]. startIndex r \<in> set expected_interface) \<longrightarrow>
      residue_loop (Inr (PList (map PInt expected_interface)))
        (map enc_residue [res 100, res 591] @ [PNone, PStr ''388'']) = Inr True"
    using ligand_list_exact [OF after_step6_simps(1-3), where rs = "[res 100, res 591]"
        and unread = "[PNone, PStr ''388'']"]
    by (elim conjE)
  then have stop: "residue_loop (Inr (PList (map PInt expected_interface)))
      (map enc_residue [res 100, res 591] @ [PNone, PStr ''388'']) = Inr True"
    by (simp add: res_def expected_interface_def)
  show ?thesis
    using small count scenario stop by (simp add: after_step6_simps example_values)
qed

subsection \<open>The candidate list is used as a set\<close>

lemma contains_set_eq: "set C1 = set C2 \<Longrightarrow> contains (PList C1) v = contains (PList C2) v"
  by (simp add: list_ex_iff)

lemma interacting_set_eq:
  assumes "set C1 = set C2"
  shows "interacting (Inr (PList C1)) xs = interacting (Inr (PList C2)) xs"
  by (induction xs) (simp_all add: contains_set_eq [OF assms] del: contains.simps)

lemma item_loop_set_eq:
  assumes "set C1 = set C2"
  shows "item_loop name (Inr (PList C1)) items acc = item_loop name (Inr (PList C2)) items acc"
  by (induction items arbitrary: acc)
     (simp_all add: interacting_set_eq [OF assms] cong: if_cong)

lemma residue_loop_set_eq:
  assumes "set C1 = set C2"
  shows "residue_loop (Inr (PList C1)) xs = residue_loop (Inr (PList C2)) xs"
  by (induction xs)
     (simp_all add: contains_set_eq [OF assms] del: contains.simps cong: if_cong)

lemma ligand_loop_set_eq:
  assumes "set C1 = set C2"
  shows "ligand_loop (Inr (PList C1)) ligands acc = ligand_loop (Inr (PList C2)) ligands acc"
  by (induction ligands arbitrary: acc)
     (simp_all add: residue_loop_set_eq [OF assms] cong: if_cong)

text \<open>
  Claim C9. The cells of Steps 6 and 7 use their candidate list only in membership
  tests: for every namespace (documents of any shape, well formed or not) and any two
  candidate lists with the same set of elements, each cell gives the same result, value
  or exception, with either list.
\<close>

theorem candidates_only_as_set:
  assumes "set C1 = set C2"
  shows "interface_residues_with_hirudin
           (env(''all_predicted_ligand_binding_residues'' \<mapsto> PList C1)) =
         interface_residues_with_hirudin
           (env(''all_predicted_ligand_binding_residues'' \<mapsto> PList C2))
       \<and> ligand_list (env(''interface_residues_with_hirudin'' \<mapsto> PList C1)) =
         ligand_list (env(''interface_residues_with_hirudin'' \<mapsto> PList C2))"
  by (simp add: interface_residues_with_hirudin_def interface_residues_def ligand_list_def
      ligands_overlapping_def records_of_def lookup_def
      item_loop_set_eq [OF assms] ligand_loop_set_eq [OF assms])

theorem candidates_only_as_set_witness:
  "set [PInt 591, PInt 388] = set [PInt 388, PInt 591, PInt 388]
   \<and> interface_residues_with_hirudin
       (fetched(''all_predicted_ligand_binding_residues'' \<mapsto> PList [PInt 591, PInt 388])) =
     interface_residues_with_hirudin
       (fetched(''all_predicted_ligand_binding_residues'' \<mapsto>
          PList [PInt 388, PInt 591, PInt 388]))
   \<and> ligand_list (fetched(''interface_residues_with_hirudin'' \<mapsto> PList [PInt 591, PInt 388])) =
     ligand_list (fetched(''interface_residues_with_hirudin'' \<mapsto>
       PList [PInt 388, PInt 591, PInt 388]))"
proof -
  have same: "set [PInt 591, PInt 388] = set [PInt 388, PInt 591, PInt 388]"
    by auto
  show ?thesis
    by (rule conjI [OF same candidates_only_as_set [OF same]])
qed

subsection \<open>The worked example\<close>

lemma extractInterfaceResidues_filter:
  "extractInterfaceResidues recs name C = filter (\<lambda>i. i \<in> C) (residues_named name recs)"
  by (simp add: extractInterfaceResidues_def residues_named_def filter_concat comp_def)

text \<open>
  Claim C7. The worked example: the allowed-provider (predicted) residues include 388,
  406, 434, 541, 565, 566, 568, 589, 591 among others, and the interaction record named
  \<^verbatim>\<open>Hirudin variant-1\<close> has these nine, met in this order, among others. Then the cell of
  Step 6 yields the residues of that record that are predicted residues, whatever the
  other records are, and the nine are among them, in this order. The nine being the
  residues the two have in common (no other residue of the record is a predicted one),
  the cell yields exactly \<^verbatim>\<open>[388, 406, 434, 541, 565, 566, 568, 589, 591]\<close>.
  \<open>residues_named\<close> takes the residues of the record of that name (the notebook's list
  of partner names has it once).
\<close>

theorem worked_example_interface:
  assumes "env ''ACCESSION'' = Some (PStr acc)"
    and "env ''interactions_data'' = Some (document acc (map enc_partner recs) other)"
    and "env ''all_predicted_ligand_binding_residues'' = Some (PList (map PInt C))"
    and "set expected_interface \<subseteq> set C"
    and "filter (\<lambda>i. i \<in> set expected_interface) (residues_named ''Hirudin variant-1'' recs) =
           expected_interface"
  shows "interface_residues_with_hirudin env =
           Inr (map PInt (filter (\<lambda>i. i \<in> set C) (residues_named ''Hirudin variant-1'' recs)))
       \<and> filter (\<lambda>i. i \<in> set expected_interface)
           (filter (\<lambda>i. i \<in> set C) (residues_named ''Hirudin variant-1'' recs)) =
           [388, 406, 434, 541, 565, 566, 568, 589, 591]
       \<and> ((\<forall>i \<in> set (residues_named ''Hirudin variant-1'' recs).
              i \<notin> set expected_interface \<longrightarrow> i \<notin> set C) \<longrightarrow>
           interface_residues_with_hirudin env =
             Inr (map PInt [388, 406, 434, 541, 565, 566, 568, 589, 591]))"
proof -
  let ?xs = "residues_named ''Hirudin variant-1'' recs"
  have "interface_residues_with_hirudin env =
      Inr (map PInt (extractInterfaceResidues recs ''Hirudin variant-1'' (set C)))"
    unfolding interface_residues_with_hirudin_def
    by (rule interface_residues_enc [OF assms(1-3)])
  then have run: "interface_residues_with_hirudin env =
      Inr (map PInt (filter (\<lambda>i. i \<in> set C) ?xs))"
    by (simp only: extractInterfaceResidues_filter)
  have "filter (\<lambda>i. i \<in> set expected_interface) (filter (\<lambda>i. i \<in> set C) ?xs) =
      filter (\<lambda>i. i \<in> set expected_interface) ?xs"
    using assms(4) by (auto intro: filter_cong)
  then have among: "filter (\<lambda>i. i \<in> set expected_interface) (filter (\<lambda>i. i \<in> set C) ?xs) =
      [388, 406, 434, 541, 565, 566, 568, 589, 591]"
    by (simp add: assms(5)) (simp add: expected_interface_def)
  have exact: "interface_residues_with_hirudin env =
      Inr (map PInt [388, 406, 434, 541, 565, 566, 568, 589, 591])"
    if others: "\<forall>i \<in> set ?xs. i \<notin> set expected_interface \<longrightarrow> i \<notin> set C"
  proof -
    have "filter (\<lambda>i. i \<in> set C) ?xs = filter (\<lambda>i. i \<in> set expected_interface) ?xs"
      using assms(4) others by (intro filter_cong) auto
    then have "interface_residues_with_hirudin env = Inr (map PInt expected_interface)"
      by (simp only: run assms(5))
    then show ?thesis
      by (simp add: expected_interface_def)
  qed
  from run among exact show ?thesis
    by blast
qed

text \<open>
  With the predicted residues the notebook records after Step 4, and a record of that
  name with the residues 367, 405, 435 and 592 among the nine.
\<close>

theorem worked_example_interface_witness:
  "env_notebook ''ACCESSION'' = Some (PStr ACCESSION)
   \<and> env_notebook ''interactions_data'' =
       Some (document ACCESSION (map enc_partner example_partners) [])
   \<and> env_notebook ''all_predicted_ligand_binding_residues'' =
       Some (PList (map PInt notebook_predicted))
   \<and> set expected_interface \<subseteq> set notebook_predicted
   \<and> residues_named ''Hirudin variant-1'' example_partners =
       [367, 388, 405, 406, 434, 435, 541, 565, 566, 568, 589, 591, 592]
   \<and> filter (\<lambda>i. i \<in> set expected_interface) (residues_named ''Hirudin variant-1'' example_partners)
       = expected_interface
   \<and> interface_residues_with_hirudin env_notebook =
       Inr (map PInt [388, 406, 434, 541, 565, 566, 568, 589, 591])"
proof -
  have env: "env_notebook ''ACCESSION'' = Some (PStr ACCESSION)"
    "env_notebook ''interactions_data'' =
       Some (document ACCESSION (map enc_partner example_partners) [])"
    "env_notebook ''all_predicted_ligand_binding_residues'' =
       Some (PList (map PInt notebook_predicted))"
    by (simp_all add: env_notebook_def fetched_def)
  have incl: "set expected_interface \<subseteq> set notebook_predicted"
    by (simp add: expected_interface_def notebook_predicted_def)
  have xs: "residues_named ''Hirudin variant-1'' example_partners =
      [367, 388, 405, 406, 434, 435, 541, 565, 566, 568, 589, 591, 592]"
    by (simp add: residues_named_def example_partners_def hirudin_residues_def res_def)
  have nine: "filter (\<lambda>i. i \<in> set expected_interface)
      (residues_named ''Hirudin variant-1'' example_partners) = expected_interface"
    by (simp add: xs expected_interface_def)
  have others: "\<forall>i \<in> set (residues_named ''Hirudin variant-1'' example_partners).
      i \<notin> set expected_interface \<longrightarrow> i \<notin> set notebook_predicted"
    by (simp add: xs notebook_predicted_def expected_interface_def)
  have run: "interface_residues_with_hirudin env_notebook =
      Inr (map PInt [388, 406, 434, 541, 565, 566, 568, 589, 591])"
    by (rule worked_example_interface [OF env incl nine, THEN conjunct2, THEN conjunct2,
          THEN mp, OF others])
  show ?thesis
    by (intro conjI) (fact env incl xs nine run)+
qed

subsection \<open>Re-running the pipeline\<close>

lemma pipeline_outputs_frame:
  assumes "e1 ''ACCESSION'' = e2 ''ACCESSION''"
    and "e1 ''annotations_data'' = e2 ''annotations_data''"
    and "e1 ''interactions_data'' = e2 ''interactions_data''"
    and "e1 ''ligands_data'' = e2 ''ligands_data''"
  shows "map_sum id outputs (pipeline e1) = map_sum id outputs (pipeline e2)"
proof -
  have A: "all_predicted_ligand_binding_residues e1 = all_predicted_ligand_binding_residues e2"
    using assms by (intro all_predicted_frame) simp_all
  have I: "interface_residues_with_hirudin
             (e1(''all_predicted_ligand_binding_residues'' \<mapsto> a)) =
           interface_residues_with_hirudin
             (e2(''all_predicted_ligand_binding_residues'' \<mapsto> a))" for a
    using assms by (intro interface_frame) simp_all
  have L: "ligand_list (e1(''all_predicted_ligand_binding_residues'' \<mapsto> a,
                            ''interface_residues_with_hirudin'' \<mapsto> i)) =
           ligand_list (e2(''all_predicted_ligand_binding_residues'' \<mapsto> a,
                            ''interface_residues_with_hirudin'' \<mapsto> i))" for a i
    using assms by (intro ligand_list_frame) simp_all
  show ?thesis
    by (simp add: pipeline_unfold A I L and_then_def outputs_def split: sum.splits)
qed

lemma pipeline_idempotent:
  assumes "pipeline env = Inr env'"
  shows "pipeline env' = Inr env'"
proof -
  from assms obtain a i l where
    a: "all_predicted_ligand_binding_residues env = Inr a" and
    i: "interface_residues_with_hirudin
          (env(''all_predicted_ligand_binding_residues'' \<mapsto> PList a)) = Inr i" and
    l: "ligand_list (env(''all_predicted_ligand_binding_residues'' \<mapsto> PList a,
                         ''interface_residues_with_hirudin'' \<mapsto> PList i)) = Inr l" and
    env': "env' = env(''all_predicted_ligand_binding_residues'' \<mapsto> PList a,
                      ''interface_residues_with_hirudin'' \<mapsto> PList i,
                      ''ligand_list'' \<mapsto> PList l)"
    by (auto simp: pipeline_unfold and_then_def split: sum.splits)
  have same: "env'(''all_predicted_ligand_binding_residues'' \<mapsto> PList a) = env'"
    "env'(''interface_residues_with_hirudin'' \<mapsto> PList i) = env'"
    "env'(''ligand_list'' \<mapsto> PList l) = env'"
    by (auto simp: env' fun_eq_iff)
  have a': "all_predicted_ligand_binding_residues env' = Inr a"
    by (simp add: env' a)
  have i': "interface_residues_with_hirudin env' = Inr i"
    by (simp add: env' i)
  have l': "ligand_list env' = Inr l"
    by (simp add: env' l)
  show ?thesis
    by (simp add: pipeline_unfold [of env'] a' i' l' same)
qed

text \<open>
  Claim C8. The three cells, run in order, are a function of the accession and the
  three documents alone: two runs from namespaces that hold the same accession and
  documents, whatever else they hold (output lists of an earlier run included), end
  with the same three output lists, or with the same exception. And a run from the
  namespace a successful run has left leaves that namespace as it is.
\<close>

theorem pipeline_deterministic:
  assumes "e1 ''ACCESSION'' = e2 ''ACCESSION''"
    and "e1 ''annotations_data'' = e2 ''annotations_data''"
    and "e1 ''interactions_data'' = e2 ''interactions_data''"
    and "e1 ''ligands_data'' = e2 ''ligands_data''"
  shows "map_sum id outputs (pipeline e1) = map_sum id outputs (pipeline e2)
       \<and> (\<forall>env'. pipeline e1 = Inr env' \<longrightarrow> pipeline env' = Inr env')"
  using pipeline_outputs_frame [OF assms] pipeline_idempotent by blast

theorem pipeline_deterministic_witness:
  "fetched ''ACCESSION'' = stale ''ACCESSION''
   \<and> fetched ''annotations_data'' = stale ''annotations_data''
   \<and> fetched ''interactions_data'' = stale ''interactions_data''
   \<and> fetched ''ligands_data'' = stale ''ligands_data''
   \<and> outputs fetched = (None, None, None)
   \<and> outputs stale = (Some (PList [PInt 1]), None, Some (PList [PStr ''GOL'']))
   \<and> map_sum id outputs (pipeline fetched) = map_sum id outputs (pipeline stale)
   \<and> pipeline fetched = Inr after_step7
   \<and> pipeline after_step7 = Inr after_step7
   \<and> outputs after_step7 =
       (Some (PList (map PInt [388, 406, 434, 541, 617, 565, 566, 568, 589, 591, 388])),
        Some (PList (map PInt [388, 406, 434, 541, 565, 566, 568, 589, 591])),
        Some (PList [PStr ''TYS'', PStr ''TYS'']))"
proof -
  have agree: "fetched ''ACCESSION'' = stale ''ACCESSION''"
    "fetched ''annotations_data'' = stale ''annotations_data''"
    "fetched ''interactions_data'' = stale ''interactions_data''"
    "fetched ''ligands_data'' = stale ''ligands_data''"
    by (simp_all add: stale_def)
  note run = pipeline_deterministic [OF agree]
  have same: "map_sum id outputs (pipeline fetched) = map_sum id outputs (pipeline stale)"
    using run by (elim conjE)
  have "\<forall>env'. pipeline fetched = Inr env' \<longrightarrow> pipeline env' = Inr env'"
    using run by (elim conjE)
  with example_pipeline have again: "pipeline after_step7 = Inr after_step7"
    by blast
  have before: "outputs fetched = (None, None, None)"
    "outputs stale = (Some (PList [PInt 1]), None, Some (PList [PStr ''GOL'']))"
    by (simp_all add: outputs_def stale_def fetched_def)
  have after: "outputs after_step7 =
      (Some (PList (map PInt [388, 406, 434, 541, 617, 565, 566, 568, 589, 591, 388])),
       Some (PList (map PInt [388, 406, 434, 541, 565, 566, 568, 589, 591])),
       Some (PList [PStr ''TYS'', PStr ''TYS'']))"
    by (simp add: outputs_def after_step7_def after_step6_def after_step4_def predicted_def
        expected_interface_def)
  show ?thesis
    by (intro conjI) (fact agree before same example_pipeline again after)+
qed

subsection \<open>A missing key\<close>

lemma records_of_missing_key:
  "env doc = Some d \<Longrightarrow> env acc = Some (PStr a) \<Longrightarrow> missing_key a d = Some k \<Longrightarrow>
     records_of env doc acc = Inl (KeyError (PStr k))"
  by (cases d) (auto simp: records_of_def lookup_def split: option.splits pyval.splits if_splits)

text \<open>The loops after a run of well-formed records.\<close>

lemma provider_loop_append:
  "provider_loop (map PStr allow) (map enc_annotation good @ later) acc =
     provider_loop (map PStr allow) later
       (acc @ map PInt (extractPredictedBindingResidues good allow))"
  by (induction good arbitrary: acc)
     (simp_all add: extractPredictedBindingResidues_def enc_annotation_def comp_def)

lemma item_loop_append:
  "item_loop name (Inr (PList (map PInt C))) (map enc_partner good @ later) acc =
     item_loop name (Inr (PList (map PInt C))) later
       (acc @ map PInt (extractInterfaceResidues good name (set C)))"
  by (induction good arbitrary: acc)
     (simp_all add: extractInterfaceResidues_def enc_partner_def)

lemma ligand_loop_append:
  "ligand_loop (Inr (PList (map PInt T))) (map enc_ligand good @ later) acc =
     ligand_loop (Inr (PList (map PInt T))) later
       (acc @ map PStr (extractLigandsOverlapping good (set T)))"
  by (induction good arbitrary: acc)
     (simp_all add: extractLigandsOverlapping_def enc_ligand_def qualifies_def)

text \<open>A residue without \<^verbatim>\<open>startIndex\<close>, once the loop reaches it.\<close>

lemma start_indices_missing:
  "map_of x ''startIndex'' = None \<Longrightarrow>
     start_indices (map enc_residue rs @ PDict x # later) = Inl (KeyError (PStr ''startIndex''))"
  by (induction rs) simp_all

lemma interacting_missing:
  "map_of x ''startIndex'' = None \<Longrightarrow>
     interacting (Inr (PList (map PInt C))) (map enc_residue rs @ PDict x # later) =
       Inl (KeyError (PStr ''startIndex''))"
  by (induction rs) simp_all

lemma residue_loop_missing:
  "\<forall>r \<in> set rs. startIndex r \<notin> set T \<Longrightarrow> map_of x ''startIndex'' = None \<Longrightarrow>
     residue_loop (Inr (PList (map PInt T))) (map enc_residue rs @ PDict x # later) =
       Inl (KeyError (PStr ''startIndex''))"
  by (induction rs) simp_all

text \<open>Step 4 at a record that lacks a key the loop looks up.\<close>

lemma predicted_residues_missing:
  assumes "env ''ACCESSION'' = Some (PStr acc)"
    and "env ''annotations_data'' =
           Some (document acc (map enc_annotation good @ PDict bad # rest) other)"
  shows "map_of bad ''accession'' = None \<Longrightarrow>
           predicted_residues allow env = Inl (KeyError (PStr ''accession''))"
    and "map_of bad ''accession'' = Some (PStr p) \<Longrightarrow> p \<in> set allow \<Longrightarrow>
         map_of bad ''residues'' = None \<Longrightarrow>
           predicted_residues allow env = Inl (KeyError (PStr ''residues''))"
    and "map_of bad ''accession'' = Some (PStr p) \<Longrightarrow> p \<in> set allow \<Longrightarrow>
         map_of bad ''residues'' = Some (PList (map enc_residue rs @ PDict x # later)) \<Longrightarrow>
         map_of x ''startIndex'' = None \<Longrightarrow>
           predicted_residues allow env = Inl (KeyError (PStr ''startIndex''))"
  by (simp_all add: predicted_residues_def records_of_document [OF assms(2) assms(1)]
      provider_loop_append start_indices_missing)

lemma interface_residues_missing:
  assumes "env ''ACCESSION'' = Some (PStr acc)"
    and "env ''interactions_data'' =
           Some (document acc (map enc_partner good @ PDict bad # rest) other)"
    and "env ''all_predicted_ligand_binding_residues'' = Some (PList (map PInt C))"
  shows "map_of bad ''name'' = None \<Longrightarrow>
           interface_residues_with_hirudin env = Inl (KeyError (PStr ''name''))"
    and "map_of bad ''name'' = Some (PStr ''Hirudin variant-1'') \<Longrightarrow>
         map_of bad ''residues'' = None \<Longrightarrow>
           interface_residues_with_hirudin env = Inl (KeyError (PStr ''residues''))"
    and "map_of bad ''name'' = Some (PStr ''Hirudin variant-1'') \<Longrightarrow>
         map_of bad ''residues'' = Some (PList (map enc_residue rs @ PDict x # later)) \<Longrightarrow>
         map_of x ''startIndex'' = None \<Longrightarrow>
           interface_residues_with_hirudin env = Inl (KeyError (PStr ''startIndex''))"
  by (simp_all add: interface_residues_with_hirudin_def interface_residues_def
      records_of_document [OF assms(2) assms(1)] lookup_def assms(3) item_loop_append
      interacting_missing)

lemma ligand_list_missing:
  assumes "env ''ACCESSION'' = Some (PStr acc)"
    and "env ''ligands_data'' =
           Some (document acc (map enc_ligand good @ PDict bad # rest) other)"
    and "env ''interface_residues_with_hirudin'' = Some (PList (map PInt T))"
  shows "map_of bad ''residues'' = None \<Longrightarrow>
           ligand_list env = Inl (KeyError (PStr ''residues''))"
    and "map_of bad ''residues'' = Some (PList (map enc_residue rs @ PDict x # later)) \<Longrightarrow>
         \<forall>r \<in> set rs. startIndex r \<notin> set T \<Longrightarrow> map_of x ''startIndex'' = None \<Longrightarrow>
           ligand_list env = Inl (KeyError (PStr ''startIndex''))"
    and "map_of bad ''residues'' = Some (PList (map enc_residue rs @ unread)) \<Longrightarrow>
         \<exists>r \<in> set rs. startIndex r \<in> set T \<Longrightarrow> map_of bad ''accession'' = None \<Longrightarrow>
           ligand_list env = Inl (KeyError (PStr ''accession''))"
  by (simp_all add: ligand_list_def ligands_overlapping_def
      records_of_document [OF assms(2) assms(1)] lookup_def assms(3) ligand_loop_append
      residue_loop_missing residue_loop_break)

lemma pipeline_propagates:
  "step4_cell env = Inl e \<Longrightarrow> pipeline env = Inl e"
  "step4_cell env = Inr env4 \<Longrightarrow> step6_cell env4 = Inl e \<Longrightarrow> pipeline env = Inl e"
  "step4_cell env = Inr env4 \<Longrightarrow> step6_cell env4 = Inr env6 \<Longrightarrow> step7_cell env6 = Inl e \<Longrightarrow>
     pipeline env = Inl e"
  by (simp_all add: pipeline_def)

text \<open>
  Claim C6. Every key the cells look up is covered: the accession and \<^verbatim>\<open>"data"\<close> in the
  document (first three conjuncts, \<open>missing_key\<close>), and \<^verbatim>\<open>"accession"\<close>, \<^verbatim>\<open>"name"\<close>,
  \<^verbatim>\<open>"residues"\<close> and \<^verbatim>\<open>"startIndex"\<close> in a record the loop reaches after any number of
  well-formed records (\<open>anns\<close>, \<open>parts\<close>, \<open>ligs\<close>), whatever follows it (\<open>rest\<close>). When the dict lacks the
  key, the cell ends with the \<^verbatim>\<open>KeyError\<close> of that key: no cell catches it, skips the
  record or puts an empty list in its place. And an exception of a cell leaves the
  pipeline as it is (last three conjuncts). The cells look a key up only where the
  loop gets to: \<^verbatim>\<open>"residues"\<close> of a record that is allow-listed (Step 4) or of the
  queried name (Step 6), \<^verbatim>\<open>"startIndex"\<close> of a ligand residue when no earlier residue
  of the record is in the target list, \<^verbatim>\<open>"accession"\<close> of a ligand that qualifies.
\<close>

theorem missing_key_propagates:
  assumes "env ''ACCESSION'' = Some (PStr acc)"
  shows "(env ''annotations_data'' = Some d \<and> missing_key acc d = Some k \<longrightarrow>
            all_predicted_ligand_binding_residues env = Inl (KeyError (PStr k))
          \<and> step4_cell env = Inl (KeyError (PStr k))
          \<and> pipeline env = Inl (KeyError (PStr k)))
       \<and> (env ''interactions_data'' = Some d \<and> missing_key acc d = Some k \<longrightarrow>
            interface_residues_with_hirudin env = Inl (KeyError (PStr k))
          \<and> step6_cell env = Inl (KeyError (PStr k))
          \<and> isl (pipeline env)
          \<and> (\<forall>env4. step4_cell env = Inr env4 \<longrightarrow> pipeline env = Inl (KeyError (PStr k))))
       \<and> (env ''ligands_data'' = Some d \<and> missing_key acc d = Some k \<longrightarrow>
            ligand_list env = Inl (KeyError (PStr k))
          \<and> step7_cell env = Inl (KeyError (PStr k))
          \<and> isl (pipeline env)
          \<and> (\<forall>env4 env6. step4_cell env = Inr env4 \<and> step6_cell env4 = Inr env6 \<longrightarrow>
                pipeline env = Inl (KeyError (PStr k))))
       \<and> (env ''annotations_data'' =
            Some (document acc (map enc_annotation anns @ PDict bad # rest) other) \<longrightarrow>
            (map_of bad ''accession'' = None \<longrightarrow>
               step4_cell env = Inl (KeyError (PStr ''accession''))
             \<and> pipeline env = Inl (KeyError (PStr ''accession'')))
          \<and> (map_of bad ''accession'' = Some (PStr p) \<and> p \<in> set [''p2rank'', ''cansar'']
              \<and> map_of bad ''residues'' = None \<longrightarrow>
               step4_cell env = Inl (KeyError (PStr ''residues''))
             \<and> pipeline env = Inl (KeyError (PStr ''residues'')))
          \<and> (map_of bad ''accession'' = Some (PStr p) \<and> p \<in> set [''p2rank'', ''cansar'']
              \<and> map_of bad ''residues'' = Some (PList (map enc_residue rs @ PDict x # later))
              \<and> map_of x ''startIndex'' = None \<longrightarrow>
               step4_cell env = Inl (KeyError (PStr ''startIndex''))
             \<and> pipeline env = Inl (KeyError (PStr ''startIndex''))))
       \<and> (env ''interactions_data'' =
            Some (document acc (map enc_partner parts @ PDict bad # rest) other)
          \<and> env ''all_predicted_ligand_binding_residues'' = Some (PList (map PInt C)) \<longrightarrow>
            (map_of bad ''name'' = None \<longrightarrow>
               step6_cell env = Inl (KeyError (PStr ''name'')))
          \<and> (map_of bad ''name'' = Some (PStr ''Hirudin variant-1'')
              \<and> map_of bad ''residues'' = None \<longrightarrow>
               step6_cell env = Inl (KeyError (PStr ''residues'')))
          \<and> (map_of bad ''name'' = Some (PStr ''Hirudin variant-1'')
              \<and> map_of bad ''residues'' = Some (PList (map enc_residue rs @ PDict x # later))
              \<and> map_of x ''startIndex'' = None \<longrightarrow>
               step6_cell env = Inl (KeyError (PStr ''startIndex''))))
       \<and> (env ''ligands_data'' =
            Some (document acc (map enc_ligand ligs @ PDict bad # rest) other)
          \<and> env ''interface_residues_with_hirudin'' = Some (PList (map PInt T)) \<longrightarrow>
            (map_of bad ''residues'' = None \<longrightarrow>
               step7_cell env = Inl (KeyError (PStr ''residues'')))
          \<and> (map_of bad ''residues'' = Some (PList (map enc_residue rs @ PDict x # later))
              \<and> (\<forall>r \<in> set rs. startIndex r \<notin> set T) \<and> map_of x ''startIndex'' = None \<longrightarrow>
               step7_cell env = Inl (KeyError (PStr ''startIndex'')))
          \<and> (map_of bad ''residues'' = Some (PList (map enc_residue rs @ later))
              \<and> (\<exists>r \<in> set rs. startIndex r \<in> set T) \<and> map_of bad ''accession'' = None \<longrightarrow>
               step7_cell env = Inl (KeyError (PStr ''accession''))))
       \<and> (step4_cell env = Inl e \<longrightarrow> pipeline env = Inl e)
       \<and> (step4_cell env = Inr env' \<and> step6_cell env' = Inl e \<longrightarrow> pipeline env = Inl e)
       \<and> (step4_cell env = Inr env' \<and> step6_cell env' = Inr env'' \<and> step7_cell env'' = Inl e \<longrightarrow>
            pipeline env = Inl e)"
proof -
  have fails4: "step4_cell env = Inl e" "pipeline env = Inl e"
    if "all_predicted_ligand_binding_residues env = Inl e" for e
    using that by (simp_all add: step_cells pipeline_unfold)
  have c1: "env ''annotations_data'' = Some d \<and> missing_key acc d = Some k \<longrightarrow>
      all_predicted_ligand_binding_residues env = Inl (KeyError (PStr k))
      \<and> step4_cell env = Inl (KeyError (PStr k))
      \<and> pipeline env = Inl (KeyError (PStr k))"
  proof (intro impI, elim conjE)
    assume doc: "env ''annotations_data'' = Some d" and k: "missing_key acc d = Some k"
    have "all_predicted_ligand_binding_residues env = Inl (KeyError (PStr k))"
      by (simp add: all_predicted_ligand_binding_residues_def predicted_residues_def
          records_of_missing_key [OF doc assms k])
    then show "all_predicted_ligand_binding_residues env = Inl (KeyError (PStr k))
        \<and> step4_cell env = Inl (KeyError (PStr k)) \<and> pipeline env = Inl (KeyError (PStr k))"
      by (simp add: fails4)
  qed
  have c2: "env ''interactions_data'' = Some d \<and> missing_key acc d = Some k \<longrightarrow>
      interface_residues_with_hirudin env = Inl (KeyError (PStr k))
      \<and> step6_cell env = Inl (KeyError (PStr k))
      \<and> isl (pipeline env)
      \<and> (\<forall>env4. step4_cell env = Inr env4 \<longrightarrow> pipeline env = Inl (KeyError (PStr k)))"
  proof (intro impI conjI allI, goal_cases)
    assume "env ''interactions_data'' = Some d \<and> missing_key acc d = Some k"
    then have doc: "env ''interactions_data'' = Some d" and k: "missing_key acc d = Some k"
      by simp_all
    have I: "interface_residues_with_hirudin e = Inl (KeyError (PStr k))"
      if "e ''interactions_data'' = env ''interactions_data''"
        "e ''ACCESSION'' = env ''ACCESSION''" for e
      using that
      by (simp add: interface_residues_with_hirudin_def interface_residues_def
          records_of_missing_key [where env = e and d = d and a = acc and k = k] doc assms k)
    {
      case 1
      show ?case by (rule I) simp_all
    next
      case 2
      have "interface_residues_with_hirudin env = Inl (KeyError (PStr k))"
        by (rule I) simp_all
      then show ?case by (simp add: step_cells)
    next
      case 3
      show ?case
        by (cases "all_predicted_ligand_binding_residues env")
           (simp_all add: pipeline_unfold I)
    next
      case (4 env4)
      then show ?case
        by (cases "all_predicted_ligand_binding_residues env")
           (simp_all add: step_cells pipeline_unfold I)
    }
  qed
  have c3: "env ''ligands_data'' = Some d \<and> missing_key acc d = Some k \<longrightarrow>
      ligand_list env = Inl (KeyError (PStr k))
      \<and> step7_cell env = Inl (KeyError (PStr k))
      \<and> isl (pipeline env)
      \<and> (\<forall>env4 env6. step4_cell env = Inr env4 \<and> step6_cell env4 = Inr env6 \<longrightarrow>
            pipeline env = Inl (KeyError (PStr k)))"
  proof (intro impI conjI allI, goal_cases)
    assume "env ''ligands_data'' = Some d \<and> missing_key acc d = Some k"
    then have doc: "env ''ligands_data'' = Some d" and k: "missing_key acc d = Some k"
      by simp_all
    have L: "ligand_list e = Inl (KeyError (PStr k))"
      if "e ''ligands_data'' = env ''ligands_data''" "e ''ACCESSION'' = env ''ACCESSION''" for e
      using that
      by (simp add: ligand_list_def ligands_overlapping_def
          records_of_missing_key [where env = e and d = d and a = acc and k = k] doc assms k)
    {
      case 1
      show ?case by (rule L) simp_all
    next
      case 2
      have "ligand_list env = Inl (KeyError (PStr k))"
        by (rule L) simp_all
      then show ?case by (simp add: step_cells)
    next
      case 3
      show ?case
        by (simp add: pipeline_unfold and_then_def L split: sum.splits)
    next
      case (4 env4 env6)
      then obtain a where env4: "env4 = env(''all_predicted_ligand_binding_residues'' \<mapsto> a)"
        by (auto simp: step_cells and_then_def split: sum.splits)
      from 4 obtain i where env6: "env6 = env4(''interface_residues_with_hirudin'' \<mapsto> i)"
        by (auto simp: step_cells and_then_def split: sum.splits)
      have "ligand_list env6 = Inl (KeyError (PStr k))"
        by (rule L) (simp_all add: env6 env4)
      then have "step7_cell env6 = Inl (KeyError (PStr k))"
        by (simp add: step_cells)
      with 4 show ?case
        by (simp add: pipeline_def)
    }
  qed
  have c4: "env ''annotations_data'' =
        Some (document acc (map enc_annotation anns @ PDict bad # rest) other) \<longrightarrow>
      (map_of bad ''accession'' = None \<longrightarrow>
         step4_cell env = Inl (KeyError (PStr ''accession''))
       \<and> pipeline env = Inl (KeyError (PStr ''accession'')))
      \<and> (map_of bad ''accession'' = Some (PStr p) \<and> p \<in> set [''p2rank'', ''cansar'']
          \<and> map_of bad ''residues'' = None \<longrightarrow>
         step4_cell env = Inl (KeyError (PStr ''residues''))
       \<and> pipeline env = Inl (KeyError (PStr ''residues'')))
      \<and> (map_of bad ''accession'' = Some (PStr p) \<and> p \<in> set [''p2rank'', ''cansar'']
          \<and> map_of bad ''residues'' = Some (PList (map enc_residue rs @ PDict x # later))
          \<and> map_of x ''startIndex'' = None \<longrightarrow>
         step4_cell env = Inl (KeyError (PStr ''startIndex''))
       \<and> pipeline env = Inl (KeyError (PStr ''startIndex'')))"
  proof (intro impI)
    assume doc: "env ''annotations_data'' =
      Some (document acc (map enc_annotation anns @ PDict bad # rest) other)"
    note missing = predicted_residues_missing [OF assms doc, where allow = "[''p2rank'', ''cansar'']",
        folded all_predicted_ligand_binding_residues_def]
    show "(map_of bad ''accession'' = None \<longrightarrow>
         step4_cell env = Inl (KeyError (PStr ''accession''))
       \<and> pipeline env = Inl (KeyError (PStr ''accession'')))
      \<and> (map_of bad ''accession'' = Some (PStr p) \<and> p \<in> set [''p2rank'', ''cansar'']
          \<and> map_of bad ''residues'' = None \<longrightarrow>
         step4_cell env = Inl (KeyError (PStr ''residues''))
       \<and> pipeline env = Inl (KeyError (PStr ''residues'')))
      \<and> (map_of bad ''accession'' = Some (PStr p) \<and> p \<in> set [''p2rank'', ''cansar'']
          \<and> map_of bad ''residues'' = Some (PList (map enc_residue rs @ PDict x # later))
          \<and> map_of x ''startIndex'' = None \<longrightarrow>
         step4_cell env = Inl (KeyError (PStr ''startIndex''))
       \<and> pipeline env = Inl (KeyError (PStr ''startIndex'')))"
      by (auto simp: fails4 missing)
  qed
  have c5: "env ''interactions_data'' =
        Some (document acc (map enc_partner parts @ PDict bad # rest) other)
      \<and> env ''all_predicted_ligand_binding_residues'' = Some (PList (map PInt C)) \<longrightarrow>
      (map_of bad ''name'' = None \<longrightarrow>
         step6_cell env = Inl (KeyError (PStr ''name'')))
      \<and> (map_of bad ''name'' = Some (PStr ''Hirudin variant-1'')
          \<and> map_of bad ''residues'' = None \<longrightarrow>
         step6_cell env = Inl (KeyError (PStr ''residues'')))
      \<and> (map_of bad ''name'' = Some (PStr ''Hirudin variant-1'')
          \<and> map_of bad ''residues'' = Some (PList (map enc_residue rs @ PDict x # later))
          \<and> map_of x ''startIndex'' = None \<longrightarrow>
         step6_cell env = Inl (KeyError (PStr ''startIndex'')))"
  proof (intro impI, elim conjE)
    assume doc: "env ''interactions_data'' =
        Some (document acc (map enc_partner parts @ PDict bad # rest) other)"
      and cand: "env ''all_predicted_ligand_binding_residues'' = Some (PList (map PInt C))"
    note missing = interface_residues_missing [OF assms doc cand]
    show "(map_of bad ''name'' = None \<longrightarrow>
         step6_cell env = Inl (KeyError (PStr ''name'')))
      \<and> (map_of bad ''name'' = Some (PStr ''Hirudin variant-1'')
          \<and> map_of bad ''residues'' = None \<longrightarrow>
         step6_cell env = Inl (KeyError (PStr ''residues'')))
      \<and> (map_of bad ''name'' = Some (PStr ''Hirudin variant-1'')
          \<and> map_of bad ''residues'' = Some (PList (map enc_residue rs @ PDict x # later))
          \<and> map_of x ''startIndex'' = None \<longrightarrow>
         step6_cell env = Inl (KeyError (PStr ''startIndex'')))"
      by (auto simp: step_cells missing)
  qed
  have c6: "env ''ligands_data'' =
        Some (document acc (map enc_ligand ligs @ PDict bad # rest) other)
      \<and> env ''interface_residues_with_hirudin'' = Some (PList (map PInt T)) \<longrightarrow>
      (map_of bad ''residues'' = None \<longrightarrow>
         step7_cell env = Inl (KeyError (PStr ''residues'')))
      \<and> (map_of bad ''residues'' = Some (PList (map enc_residue rs @ PDict x # later))
          \<and> (\<forall>r \<in> set rs. startIndex r \<notin> set T) \<and> map_of x ''startIndex'' = None \<longrightarrow>
         step7_cell env = Inl (KeyError (PStr ''startIndex'')))
      \<and> (map_of bad ''residues'' = Some (PList (map enc_residue rs @ later))
          \<and> (\<exists>r \<in> set rs. startIndex r \<in> set T) \<and> map_of bad ''accession'' = None \<longrightarrow>
         step7_cell env = Inl (KeyError (PStr ''accession'')))"
  proof (intro impI, elim conjE)
    assume doc: "env ''ligands_data'' =
        Some (document acc (map enc_ligand ligs @ PDict bad # rest) other)"
      and cand: "env ''interface_residues_with_hirudin'' = Some (PList (map PInt T))"
    note missing = ligand_list_missing [OF assms doc cand]
    show "(map_of bad ''residues'' = None \<longrightarrow>
         step7_cell env = Inl (KeyError (PStr ''residues'')))
      \<and> (map_of bad ''residues'' = Some (PList (map enc_residue rs @ PDict x # later))
          \<and> (\<forall>r \<in> set rs. startIndex r \<notin> set T) \<and> map_of x ''startIndex'' = None \<longrightarrow>
         step7_cell env = Inl (KeyError (PStr ''startIndex'')))
      \<and> (map_of bad ''residues'' = Some (PList (map enc_residue rs @ later))
          \<and> (\<exists>r \<in> set rs. startIndex r \<in> set T) \<and> map_of bad ''accession'' = None \<longrightarrow>
         step7_cell env = Inl (KeyError (PStr ''accession'')))"
    proof (intro conjI impI)
      assume "map_of bad ''residues'' = None"
      then have "ligand_list env = Inl (KeyError (PStr ''residues''))"
        by (rule missing(1))
      then show "step7_cell env = Inl (KeyError (PStr ''residues''))"
        by (simp add: step_cells)
    next
      assume "map_of bad ''residues'' = Some (PList (map enc_residue rs @ PDict x # later))
        \<and> (\<forall>r \<in> set rs. startIndex r \<notin> set T) \<and> map_of x ''startIndex'' = None"
      then have "ligand_list env = Inl (KeyError (PStr ''startIndex''))"
        by (elim conjE) (rule missing(2))
      then show "step7_cell env = Inl (KeyError (PStr ''startIndex''))"
        by (simp add: step_cells)
    next
      assume "map_of bad ''residues'' = Some (PList (map enc_residue rs @ later))
        \<and> (\<exists>r \<in> set rs. startIndex r \<in> set T) \<and> map_of bad ''accession'' = None"
      then have "ligand_list env = Inl (KeyError (PStr ''accession''))"
        by (elim conjE) (rule missing(3))
      then show "step7_cell env = Inl (KeyError (PStr ''accession''))"
        by (simp add: step_cells)
    qed
  qed
  have c7: "step4_cell env = Inl e \<longrightarrow> pipeline env = Inl e"
    by (simp add: pipeline_propagates)
  have c8: "step4_cell env = Inr env' \<and> step6_cell env' = Inl e \<longrightarrow> pipeline env = Inl e"
    by (simp add: pipeline_propagates)
  have c9: "step4_cell env = Inr env' \<and> step6_cell env' = Inr env'' \<and> step7_cell env'' = Inl e \<longrightarrow>
      pipeline env = Inl e"
    by (simp add: pipeline_propagates)
  show ?thesis
    by (intro conjI) (fact c1 c2 c3 c4 c5 c6 c7 c8 c9)+
qed

text \<open>
  On the small run: a document of another accession, an entry without \<^verbatim>\<open>"data"\<close>, and,
  after the well-formed records, a record or a residue that lacks a key. What follows
  the faulty record (here \<^verbatim>\<open>None\<close>, which is no record) is not reached.
\<close>

theorem missing_key_propagates_witness:
  "step4_cell other_accession = Inl (KeyError (PStr ''P00734''))
   \<and> pipeline other_accession = Inl (KeyError (PStr ''P00734''))
   \<and> ligand_list no_data = Inl (KeyError (PStr ''data''))
   \<and> isl (pipeline no_data)
   \<and> step4_cell (with_annotations (map enc_annotation example_annotations @
        [PDict [(''residues'', PList [])], PNone])) = Inl (KeyError (PStr ''accession''))
   \<and> pipeline (with_annotations (map enc_annotation example_annotations @
        [PDict [(''accession'', PStr ''cansar'')], PNone])) = Inl (KeyError (PStr ''residues''))
   \<and> step4_cell (with_annotations (map enc_annotation example_annotations @
        [PDict [(''accession'', PStr ''p2rank''),
                (''residues'', PList (map enc_residue [res 388] @ [PDict no_start, PNone]))]])) =
       Inl (KeyError (PStr ''startIndex''))
   \<and> step6_cell (with_partners (map enc_partner example_partners @
        [PDict [(''residues'', PList [])], PNone])) = Inl (KeyError (PStr ''name''))
   \<and> pipeline (with_partners (map enc_partner example_partners @
        [PDict [(''residues'', PList [])], PNone])) = Inl (KeyError (PStr ''name''))
   \<and> step6_cell (with_partners (map enc_partner example_partners @
        [PDict [(''name'', PStr ''Hirudin variant-1'')], PNone])) =
       Inl (KeyError (PStr ''residues''))
   \<and> step6_cell (with_partners (map enc_partner example_partners @
        [PDict [(''name'', PStr ''Hirudin variant-1''),
                (''residues'', PList (map enc_residue [res 388] @ [PDict no_start, PNone]))]])) =
       Inl (KeyError (PStr ''startIndex''))
   \<and> step7_cell (with_ligands (map enc_ligand example_ligands @
        [PDict [(''accession'', PStr ''GOL'')], PNone])) = Inl (KeyError (PStr ''residues''))
   \<and> step7_cell (with_ligands (map enc_ligand example_ligands @
        [PDict [(''accession'', PStr ''GOL''),
                (''residues'', PList (map enc_residue [res 100] @ [PDict no_start, PNone]))]])) =
       Inl (KeyError (PStr ''startIndex''))
   \<and> step7_cell (with_ligands (map enc_ligand example_ligands @
        [PDict [(''residues'', PList (map enc_residue [res 100, res 388] @ [PNone]))], PNone])) =
       Inl (KeyError (PStr ''accession''))"
proof -
  have acc: "other_accession ''ACCESSION'' = Some (PStr ''P00734'')"
    "no_data ''ACCESSION'' = Some (PStr ''P00734'')"
    by (simp_all add: other_accession_def no_data_def fetched_def ACCESSION_def)
  have docs: "other_accession ''annotations_data'' = Some (document ''Q99999'' [] [])"
    "no_data ''ligands_data'' =
       Some (PDict [(''P00734'', PDict [(''sequence'', PStr ''MAHVRGLQLPG'')])])"
    by (simp_all add: other_accession_def no_data_def ACCESSION_def)
  have missing: "missing_key ''P00734'' (document ''Q99999'' [] []) = Some ''P00734''"
    "missing_key ''P00734'' (PDict [(''P00734'', PDict [(''sequence'', PStr ''MAHVRGLQLPG'')])])
       = Some ''data''"
    by (simp_all add: document_def)
  have top4: "step4_cell other_accession = Inl (KeyError (PStr ''P00734''))"
    "pipeline other_accession = Inl (KeyError (PStr ''P00734''))"
    using missing_key_propagates [where env = other_accession and acc = "''P00734''"
        and d = "document ''Q99999'' [] []" and k = "''P00734''", OF acc(1)] docs(1) missing(1)
    by blast+
  have top7: "ligand_list no_data = Inl (KeyError (PStr ''data''))" "isl (pipeline no_data)"
    using missing_key_propagates [where env = no_data and acc = "''P00734''"
        and d = "PDict [(''P00734'', PDict [(''sequence'', PStr ''MAHVRGLQLPG'')])]"
        and k = "''data''", OF acc(2)] docs(2) missing(2)
    by blast+
  have e4: "with_annotations recs ''ACCESSION'' = Some (PStr ACCESSION)"
    "with_annotations recs ''annotations_data'' = Some (document ACCESSION recs [])" for recs
    by (simp_all add: with_annotations_def fetched_def)
  have e6: "with_partners recs ''ACCESSION'' = Some (PStr ACCESSION)"
    "with_partners recs ''interactions_data'' = Some (document ACCESSION recs [])"
    "with_partners recs ''all_predicted_ligand_binding_residues'' =
       Some (PList (map PInt predicted))" for recs
    by (simp_all add: with_partners_def after_step4_simps)
  have e7: "with_ligands recs ''ACCESSION'' = Some (PStr ACCESSION)"
    "with_ligands recs ''ligands_data'' = Some (document ACCESSION recs [])"
    "with_ligands recs ''interface_residues_with_hirudin'' =
       Some (PList (map PInt expected_interface))" for recs
    by (simp_all add: with_ligands_def after_step6_simps)
  let ?a1 = "[(''residues'', PList [])]"
  let ?a2 = "[(''accession'', PStr ''cansar'')]"
  let ?a3 = "[(''accession'', PStr ''p2rank''),
              (''residues'', PList (map enc_residue [res 388] @ [PDict no_start, PNone]))]"
  have w4a: "step4_cell (with_annotations (map enc_annotation example_annotations @
      [PDict ?a1, PNone])) = Inl (KeyError (PStr ''accession''))"
    using missing_key_propagates [where env =
          "with_annotations (map enc_annotation example_annotations @ [PDict ?a1, PNone])"
        and acc = ACCESSION and anns = example_annotations
        and bad = ?a1 and rest = "[PNone]" and other = "[]", OF e4(1)] e4(2)
    by simp
  have w4b: "pipeline (with_annotations (map enc_annotation example_annotations @
      [PDict ?a2, PNone])) = Inl (KeyError (PStr ''residues''))"
    using missing_key_propagates [where env =
          "with_annotations (map enc_annotation example_annotations @ [PDict ?a2, PNone])"
        and acc = ACCESSION and anns = example_annotations
        and bad = ?a2 and rest = "[PNone]" and other = "[]" and p = "''cansar''", OF e4(1)] e4(2)
    by simp
  have w4c: "step4_cell (with_annotations (map enc_annotation example_annotations @
      [PDict ?a3])) = Inl (KeyError (PStr ''startIndex''))"
    using missing_key_propagates [where env =
          "with_annotations (map enc_annotation example_annotations @ [PDict ?a3])"
        and acc = ACCESSION and anns = example_annotations
        and bad = ?a3 and rest = "[]" and other = "[]" and p = "''p2rank''" and rs = "[res 388]"
        and x = no_start and later = "[PNone]", OF e4(1)] e4(2)
    by (simp add: no_start_def)
  let ?p1 = "[(''residues'', PList [])]"
  let ?p2 = "[(''name'', PStr ''Hirudin variant-1'')]"
  let ?p3 = "[(''name'', PStr ''Hirudin variant-1''),
              (''residues'', PList (map enc_residue [res 388] @ [PDict no_start, PNone]))]"
  have w6a: "step6_cell (with_partners (map enc_partner example_partners @
      [PDict ?p1, PNone])) = Inl (KeyError (PStr ''name''))"
    using missing_key_propagates [where env =
          "with_partners (map enc_partner example_partners @ [PDict ?p1, PNone])"
        and acc = ACCESSION and parts = example_partners
        and bad = ?p1 and rest = "[PNone]" and other = "[]" and C = predicted, OF e6(1)]
      e6(2,3)
    by simp
  have s4: "step4_cell (with_partners recs) = Inr (with_partners recs)" for recs
  proof -
    have "all_predicted_ligand_binding_residues (with_partners recs) =
        all_predicted_ligand_binding_residues fetched"
      by (rule all_predicted_frame) (simp_all add: with_partners_def after_step4_def)
    moreover have "(with_partners recs)(''all_predicted_ligand_binding_residues'' \<mapsto>
        PList (map PInt predicted)) = with_partners recs"
      by (rule fun_upd_idem) (rule e6(3))
    ultimately show ?thesis
      by (simp add: step_cells example_run(1))
  qed
  have w6p: "pipeline (with_partners (map enc_partner example_partners @
      [PDict ?p1, PNone])) = Inl (KeyError (PStr ''name''))"
    by (rule missing_key_propagates [where env =
          "with_partners (map enc_partner example_partners @ [PDict ?p1, PNone])",
          OF e6(1), THEN conjunct2, THEN conjunct2, THEN conjunct2,
          THEN conjunct2, THEN conjunct2, THEN conjunct2, THEN conjunct2, THEN conjunct1,
          THEN mp, OF conjI, OF s4 w6a])
  have w6b: "step6_cell (with_partners (map enc_partner example_partners @
      [PDict ?p2, PNone])) = Inl (KeyError (PStr ''residues''))"
    using missing_key_propagates [where env =
          "with_partners (map enc_partner example_partners @ [PDict ?p2, PNone])"
        and acc = ACCESSION and parts = example_partners
        and bad = ?p2 and rest = "[PNone]" and other = "[]" and C = predicted, OF e6(1)]
      e6(2,3)
    by simp
  have w6c: "step6_cell (with_partners (map enc_partner example_partners @
      [PDict ?p3])) = Inl (KeyError (PStr ''startIndex''))"
    using missing_key_propagates [where env =
          "with_partners (map enc_partner example_partners @ [PDict ?p3])"
        and acc = ACCESSION and parts = example_partners
        and bad = ?p3 and rest = "[]" and other = "[]" and C = predicted and rs = "[res 388]"
        and x = no_start and later = "[PNone]", OF e6(1)] e6(2,3)
    by (simp add: no_start_def)
  let ?l1 = "[(''accession'', PStr ''GOL'')]"
  let ?l2 = "[(''accession'', PStr ''GOL''),
              (''residues'', PList (map enc_residue [res 100] @ [PDict no_start, PNone]))]"
  let ?l3 = "[(''residues'', PList (map enc_residue [res 100, res 388] @ [PNone]))]"
  have w7a: "step7_cell (with_ligands (map enc_ligand example_ligands @
      [PDict ?l1, PNone])) = Inl (KeyError (PStr ''residues''))"
    using missing_key_propagates [where env =
          "with_ligands (map enc_ligand example_ligands @ [PDict ?l1, PNone])"
        and acc = ACCESSION and ligs = example_ligands
        and bad = ?l1 and rest = "[PNone]" and other = "[]" and T = expected_interface,
        OF e7(1)] e7(2,3)
    by simp
  have w7b: "step7_cell (with_ligands (map enc_ligand example_ligands @
      [PDict ?l2])) = Inl (KeyError (PStr ''startIndex''))"
    using missing_key_propagates [where env =
          "with_ligands (map enc_ligand example_ligands @ [PDict ?l2])"
        and acc = ACCESSION and ligs = example_ligands
        and bad = ?l2 and rest = "[]" and other = "[]" and T = expected_interface
        and rs = "[res 100]" and x = no_start and later = "[PNone]", OF e7(1)] e7(2,3)
    by (simp add: no_start_def res_def expected_interface_def)
  have w7c: "step7_cell (with_ligands (map enc_ligand example_ligands @
      [PDict ?l3, PNone])) = Inl (KeyError (PStr ''accession''))"
    using missing_key_propagates [where env =
          "with_ligands (map enc_ligand example_ligands @ [PDict ?l3, PNone])"
        and acc = ACCESSION and ligs = example_ligands
        and bad = ?l3 and rest = "[PNone]" and other = "[]" and T = expected_interface
        and rs = "[res 100, res 388]" and later = "[PNone]", OF e7(1)] e7(2,3)
    by (simp add: res_def expected_interface_def)
  show ?thesis
    by (intro conjI) (fact top4 top7 w4a w4b w4c w6a w6p w6b w6c w7a w7b w7c)+
qed

subsection \<open>The helper functions\<close>

text \<open>
  Claim C4 as the specification states it says that, for every response, \<open>parse_data\<close>
  returns the decoded body if and only if the status code is 200. A response with
  status code 200 whose body is not JSON is not returned from: the decoder's error
  leaves \<open>parse_data\<close>.
\<close>

theorem parse_data_counterexample:
  "status_code html_response = 200
   \<and> toy_decode (body html_response) = None
   \<and> parse_data toy_decode (Some html_response) = Inl JSONDecodeError
   \<and> isl (parse_data toy_decode (Some html_response))"
  by (simp add: html_response_def toy_decode_def json_def)

text \<open>
  Claim C4, amended. For every response, \<open>parse_data\<close> returns the decoded body exactly
  when the status code is 200 and the body is JSON; with status code 200 and a body
  that is not JSON the decoder's error leaves it; and it raises
  \<^verbatim>\<open>ValueError('No data received')\<close> exactly when the status code is not 200, in which
  case the body is not parsed: the result is the same for every body and every decoder.
\<close>

theorem parse_data_status:
  "(parse_data decode (Some r) = Inr doc \<longleftrightarrow>
      status_code r = 200 \<and> decode (body r) = Some doc)
   \<and> (parse_data decode (Some r) = Inl JSONDecodeError \<longleftrightarrow>
        status_code r = 200 \<and> decode (body r) = None)
   \<and> (parse_data decode (Some r) = Inl (ValueError ''No data received'') \<longleftrightarrow>
        status_code r \<noteq> 200)
   \<and> (status_code r \<noteq> 200 \<longrightarrow>
        parse_data decode' (Some (r\<lparr>body := b\<rparr>)) = parse_data decode (Some r))"
  by (auto simp: json_def split: option.splits)

theorem parse_data_status_witness:
  "toy_decode (body ok_response) = Some (PDict [])
   \<and> status_code ok_response = 200
   \<and> parse_data toy_decode (Some ok_response) = Inr (PDict [])
   \<and> status_code html_response = 200
   \<and> toy_decode (body html_response) = None
   \<and> parse_data toy_decode (Some html_response) = Inl JSONDecodeError
   \<and> status_code not_found_response \<noteq> 200
   \<and> parse_data toy_decode (Some not_found_response) = Inl (ValueError ''No data received'')
   \<and> parse_data (\<lambda>b. None) (Some (not_found_response\<lparr>body := ''<html>''\<rparr>)) =
       parse_data toy_decode (Some not_found_response)"
proof -
  have dec: "toy_decode (body ok_response) = Some (PDict [])"
    by (simp add: toy_decode_def ok_response_def)
  have ok: "status_code ok_response = 200"
    by (simp add: ok_response_def)
  have html: "status_code html_response = 200" "toy_decode (body html_response) = None"
    by (simp_all add: html_response_def toy_decode_def)
  have bad: "status_code not_found_response \<noteq> 200"
    by (simp add: not_found_response_def)
  have r1: "parse_data toy_decode (Some ok_response) = Inr (PDict [])"
    using parse_data_status [of toy_decode ok_response "PDict []"] dec ok by blast
  have r2: "parse_data toy_decode (Some html_response) = Inl JSONDecodeError"
    using parse_data_status [of toy_decode html_response] html by blast
  have r3: "parse_data toy_decode (Some not_found_response) =
      Inl (ValueError ''No data received'')"
    using parse_data_status [of toy_decode not_found_response] bad by blast
  have r4: "parse_data (\<lambda>b. None) (Some (not_found_response\<lparr>body := ''<html>''\<rparr>)) =
      parse_data toy_decode (Some not_found_response)"
    using parse_data_status [of toy_decode not_found_response _ "\<lambda>b. None" "''<html>''"] bad
    by blast
  show ?thesis
    by (intro conjI) (fact dec ok html bad r1 r2 r3 r4)+
qed

text \<open>
  Had \<^verbatim>\<open>Error\<close> named a class that catches the failure, \<open>get_data\<close> would print the
  message and return \<^verbatim>\<open>None\<close>, as its docstring says (\<^verbatim>\<open>:return: Response object or None\<close>),
  and \<open>parse_data\<close> would then fail on \<^verbatim>\<open>None\<close>.
\<close>

lemma get_data_if_Error_bound:
  "get_data (Some (\<lambda>e. True)) unreachable ACCESSION ANNOTATIONS_URL =
     (Inr None, [''There was an error while retrieving the data: Name or service not known''])"
  "fetch (Some (\<lambda>e. True)) unreachable toy_decode ACCESSION ANNOTATIONS_URL =
     Inl (AttributeError ''status_code'')"
  by (simp_all add: get_data_def fetch_def unreachable_def)

text \<open>
  Claim C5 says that on a transport error \<open>get_data\<close> catches the error, logs a message
  and returns \<^verbatim>\<open>None\<close>. In the notebook it does not: the name \<^verbatim>\<open>Error\<close> of its
  \<^verbatim>\<open>except\<close> clause is unbound, so a \<^verbatim>\<open>NameError\<close> leaves \<open>get_data\<close>, nothing is printed,
  and the cell that fetches ends with that \<^verbatim>\<open>NameError\<close>.
\<close>

theorem get_data_transport_error:
  "get_data notebook_Error unreachable ACCESSION ANNOTATIONS_URL =
     (Inl (NameError ''Error''), [])
   \<and> fetch notebook_Error unreachable toy_decode ACCESSION ANNOTATIONS_URL =
       Inl (NameError ''Error'')"
  by (simp add: get_data_def fetch_def unreachable_def notebook_Error_def)

subsection \<open>The second copy of the notebook\<close>

text \<open>
  The cells of Steps 6 and 7 of \<^verbatim>\<open>src/unnamed/part_000\<close> agree with those of
  \<^verbatim>\<open>example.ipynb\<close> in a namespace where \<^verbatim>\<open>accession\<close> and \<^verbatim>\<open>ACCESSION\<close> are
  bound to the same value, and \<^verbatim>\<open>all_ligand_binding_residues\<close> and
  \<^verbatim>\<open>all_predicted_ligand_binding_residues\<close> are.
\<close>

lemma part_000_agrees_when_bound:
  assumes "env ''accession'' = Some a" and "env ''ACCESSION'' = Some a"
    and "env ''all_ligand_binding_residues'' = Some c"
    and "env ''all_predicted_ligand_binding_residues'' = Some c"
  shows "interface_residues_with_hirudin_part_000 env = interface_residues_with_hirudin env"
    and "ligand_list_part_000 env = ligand_list env"
  using assms
  by (simp_all add: interface_residues_with_hirudin_part_000_def
      interface_residues_with_hirudin_def interface_residues_def ligand_list_part_000_def
      ligand_list_def ligands_overlapping_def records_of_def lookup_def)

text \<open>
  Claim C10 says the two copies compute the same values in every state. No cell of
  either notebook binds \<^verbatim>\<open>accession\<close> (it is only the parameter of \<open>get_data\<close>) or
  \<^verbatim>\<open>all_ligand_binding_residues\<close>. In the namespace the cells before Step 6 leave, the
  cells of \<^verbatim>\<open>example.ipynb\<close> compute their lists and those of the second copy end with
  a \<^verbatim>\<open>NameError\<close>; with \<^verbatim>\<open>accession\<close> bound, the second copy's Step 6 ends with the
  \<^verbatim>\<open>NameError\<close> of the candidate list.
\<close>

theorem part_000_cells_diverge:
  "after_step4 ''accession'' = None
   \<and> interface_residues_with_hirudin after_step4 =
       Inr (map PInt [388, 406, 434, 541, 565, 566, 568, 589, 591])
   \<and> interface_residues_with_hirudin_part_000 after_step4 = Inl (NameError ''accession'')
   \<and> interface_residues_with_hirudin_part_000 (after_step4(''accession'' \<mapsto> PStr ACCESSION)) =
       Inl (NameError ''all_ligand_binding_residues'')
   \<and> ligand_list after_step6 = Inr [PStr ''TYS'', PStr ''TYS'']
   \<and> ligand_list_part_000 after_step6 = Inl (NameError ''accession'')"
proof -
  have ex6: "interface_residues_with_hirudin after_step4 =
      Inr (map PInt [388, 406, 434, 541, 565, 566, 568, 589, 591])"
    using example_run(2) by (simp add: expected_interface_def)
  have p6: "interface_residues_with_hirudin_part_000 after_step4 = Inl (NameError ''accession'')"
    by (simp add: interface_residues_with_hirudin_part_000_def interface_residues_def
        records_of_def lookup_def after_step4_simps)
  have recs: "records_of (after_step4(''accession'' \<mapsto> PStr ACCESSION))
      ''interactions_data'' ''accession'' = Inr (map enc_partner example_partners)"
    by (rule records_of_document [where a = ACCESSION and other = "[]"])
       (simp_all add: after_step4_simps)
  have cand: "lookup (after_step4(''accession'' \<mapsto> PStr ACCESSION))
      ''all_ligand_binding_residues'' = Inl (NameError ''all_ligand_binding_residues'')"
    by (simp add: lookup_def after_step4_def fetched_def)
  have loop: "item_loop ''Hirudin variant-1'' (Inl (NameError ''all_ligand_binding_residues''))
      (map enc_partner example_partners) [] = Inl (NameError ''all_ligand_binding_residues'')"
    by (simp add: example_partners_def enc_partner_def hirudin_residues_def res_def
        enc_residue_def)
  have p6': "interface_residues_with_hirudin_part_000
      (after_step4(''accession'' \<mapsto> PStr ACCESSION)) =
        Inl (NameError ''all_ligand_binding_residues'')"
    by (simp only: interface_residues_with_hirudin_part_000_def interface_residues_def recs
        cand and_then_simps loop)
  have ex7: "ligand_list after_step6 = Inr [PStr ''TYS'', PStr ''TYS'']"
    using example_run(3) by simp
  have p7: "ligand_list_part_000 after_step6 = Inl (NameError ''accession'')"
    by (simp add: ligand_list_part_000_def ligands_overlapping_def records_of_def lookup_def
        after_step6_simps)
  show ?thesis
    by (intro conjI) (fact after_step4_simps(4) ex6 p6 p6' ex7 p7)+
qed

end
